theory Spec2Isabelle
  imports Complex_Main "HOL-Library.Word"
begin

section \<open>Floating-point values\<close>

text \<open>
  The arrays of the package hold IEEE floating-point numbers. The code tests for the
  special values (\<^verbatim>\<open>np.isfinite\<close>, \<^verbatim>\<open>np.isnan\<close>) and produces them
  (division by zero, the logarithm of zero), so the model keeps them apart from the finite
  values. A finite value is taken as the real number it stands for: rounding, the overflow
  of a finite result and the sign of zero are not modelled (a zero divisor counts as
  \<open>+0.0\<close>).
\<close>

datatype fl = Fin real | PInf | NInf | NaN

fun isfinite :: "fl \<Rightarrow> bool" where
  "isfinite (Fin r) = True"
| "isfinite v = False"

fun isnan :: "fl \<Rightarrow> bool" where
  "isnan NaN = True"
| "isnan v = False"

definition signed_inf :: "real \<Rightarrow> fl" where
  "signed_inf r = (if 0 < r then PInf else if r < 0 then NInf else NaN)"

fun fl_neg :: "fl \<Rightarrow> fl" where
  "fl_neg (Fin r) = Fin (- r)"
| "fl_neg PInf = NInf"
| "fl_neg NInf = PInf"
| "fl_neg NaN = NaN"

fun fl_add :: "fl \<Rightarrow> fl \<Rightarrow> fl" where
  "fl_add NaN b = NaN"
| "fl_add a NaN = NaN"
| "fl_add (Fin a) (Fin b) = Fin (a + b)"
| "fl_add (Fin a) b = b"
| "fl_add a (Fin b) = a"
| "fl_add PInf PInf = PInf"
| "fl_add NInf NInf = NInf"
| "fl_add PInf NInf = NaN"
| "fl_add NInf PInf = NaN"

definition fl_sub :: "fl \<Rightarrow> fl \<Rightarrow> fl" where
  "fl_sub a b = fl_add a (fl_neg b)"

fun fl_mul :: "fl \<Rightarrow> fl \<Rightarrow> fl" where
  "fl_mul NaN b = NaN"
| "fl_mul a NaN = NaN"
| "fl_mul (Fin a) (Fin b) = Fin (a * b)"
| "fl_mul (Fin a) PInf = signed_inf a"
| "fl_mul (Fin a) NInf = signed_inf (- a)"
| "fl_mul PInf (Fin b) = signed_inf b"
| "fl_mul NInf (Fin b) = signed_inf (- b)"
| "fl_mul PInf PInf = PInf"
| "fl_mul NInf NInf = PInf"
| "fl_mul PInf NInf = NInf"
| "fl_mul NInf PInf = NInf"

fun fl_div :: "fl \<Rightarrow> fl \<Rightarrow> fl" where
  "fl_div NaN b = NaN"
| "fl_div a NaN = NaN"
| "fl_div (Fin a) (Fin b) = (if b = 0 then signed_inf a else Fin (a / b))"
| "fl_div (Fin a) b = Fin 0"
| "fl_div PInf (Fin b) = (if b < 0 then NInf else PInf)"
| "fl_div NInf (Fin b) = (if b < 0 then PInf else NInf)"
| "fl_div a b = NaN"

fun fl_sqrt :: "fl \<Rightarrow> fl" where
  "fl_sqrt (Fin r) = (if r < 0 then NaN else Fin (sqrt r))"
| "fl_sqrt PInf = PInf"
| "fl_sqrt v = NaN"

fun fl_log :: "fl \<Rightarrow> fl" where
  "fl_log (Fin r) = (if r < 0 then NaN else if r = 0 then NInf else Fin (ln r))"
| "fl_log PInf = PInf"
| "fl_log v = NaN"

fun fl_abs :: "fl \<Rightarrow> fl" where
  "fl_abs (Fin r) = Fin \<bar>r\<bar>"
| "fl_abs NaN = NaN"
| "fl_abs v = PInf"

text \<open>The comparisons are false as soon as one side is NaN.\<close>

fun fl_lt :: "fl \<Rightarrow> fl \<Rightarrow> bool" where
  "fl_lt NaN b = False"
| "fl_lt a NaN = False"
| "fl_lt (Fin a) (Fin b) = (a < b)"
| "fl_lt a PInf = (a \<noteq> PInf)"
| "fl_lt NInf b = (b \<noteq> NInf)"
| "fl_lt a b = False"

definition fl_gt :: "fl \<Rightarrow> fl \<Rightarrow> bool" where
  "fl_gt a b = fl_lt b a"

fun fl_le :: "fl \<Rightarrow> fl \<Rightarrow> bool" where
  "fl_le NaN b = False"
| "fl_le a NaN = False"
| "fl_le a b = (\<not> fl_lt b a)"

definition fl_of_bool :: "bool \<Rightarrow> fl" where
  "fl_of_bool b = (if b then Fin 1 else Fin 0)"

text \<open>\<^verbatim>\<open>v ** 2\<close> on an array is the product of the value with itself.\<close>

definition fl_square :: "fl \<Rightarrow> fl" where
  "fl_square v = fl_mul v v"

section \<open>Arrays\<close>

text \<open>
  A grid (a 2D array over \<open>y\<close> and \<open>x\<close>) is the list of its pixels in row-major order, a
  cube (time, or regressor, by \<open>y\<close> by \<open>x\<close>) is the list of its grids. The element-wise
  operations of NumPy act pixel by pixel; two operands of different shapes, which NumPy
  refuses or broadcasts, are outside the model, and the theorems below ask for grids of
  one common size.
\<close>

type_synonym grid = "fl list"
type_synonym cube = "fl list list"

definition np_where :: "bool list \<Rightarrow> 'a list \<Rightarrow> 'a list \<Rightarrow> 'a list" where
  "np_where c a b = map (\<lambda>(ci, ai, bi). if ci then ai else bi) (zip c (zip a b))"

definition np_logical_and :: "bool list \<Rightarrow> bool list \<Rightarrow> bool list" where
  "np_logical_and a b = map (\<lambda>(ai, bi). ai \<and> bi) (zip a b)"

text \<open>
  The boundary is the one array whose element type changes during the life of an instance:
  \<^verbatim>\<open>CuSum.fit\<close> creates it with \<^verbatim>\<open>dtype=np.uint16\<close>, the first process update replaces
  it by an array of floats. Where an operation mixes the array with floats, NumPy converts
  the integers, which is exact.
\<close>

datatype ndarray = UInt16 "16 word list" | Float64 "fl list"

definition u16_to_fl :: "16 word \<Rightarrow> fl" where
  "u16_to_fl w = Fin (real (unat w))"

fun as_float :: "ndarray \<Rightarrow> fl list" where
  "as_float (UInt16 ws) = map u16_to_fl ws"
| "as_float (Float64 vs) = vs"

text \<open>\<^verbatim>\<open>np.isnan\<close>: no element of an integer array is NaN.\<close>

fun np_isnan :: "ndarray \<Rightarrow> bool list" where
  "np_isnan (UInt16 ws) = map (\<lambda>w. False) ws"
| "np_isnan (Float64 vs) = map isnan vs"

section \<open>The monitoring instance\<close>

text \<open>
  The attributes of a \<^verbatim>\<open>CuSum\<close> instance (those of \<^verbatim>\<open>BaseNrt\<close> and its own). The mask is
  \<open>None\<close> until an instance is given one or \<^verbatim>\<open>_fit\<close> creates it; its codes are
  0 (not monitored), 1 (monitored), 2 (unstable history) and 3 (confirmed break). The
  critical value is what the constructor derived from the sensitivity, by a function of
  \<^verbatim>\<open>nrt.utils_cusum\<close> that is not part of the sources at hand. The counts \<open>histsize\<close>
  and \<open>n\<close> are 16-bit unsigned integers, as \<^verbatim>\<open>fit\<close> creates them.
\<close>

record cusum =
  mask :: "8 word list option"
  trend :: bool
  harmonic_order :: nat
  x_coords :: "fl list"
  y_coords :: "fl list"
  beta :: cube
  process :: grid
  boundary :: ndarray
  sensitivity :: fl
  critval :: fl
  sigma :: grid
  histsize :: "16 word list"
  n :: "16 word list"

text \<open>
  \<^verbatim>\<open>self.mask == 1\<close>, over a grid of \<open>k\<close> pixels. Without a mask the comparison
  \<^verbatim>\<open>None == 1\<close> is the single value \<^verbatim>\<open>False\<close>, which NumPy spreads over the grid.
\<close>

definition mask_is_monitored :: "8 word list option \<Rightarrow> nat \<Rightarrow> bool list" where
  "mask_is_monitored m k =
     (case m of None \<Rightarrow> replicate k False | Some ws \<Rightarrow> map (\<lambda>w. w = 1) ws)"

subsection \<open>Prediction\<close>

text \<open>
  \<^verbatim>\<open>build_regressors\<close> (module \<^verbatim>\<open>nrt.utils\<close>) is not part of the sources at hand: it is
  a parameter \<open>br\<close>, from the dates (nanoseconds since the epoch), the trend flag and the
  harmonic order to the design matrix, one row per date.
\<close>

type_synonym regressors = "int list \<Rightarrow> bool \<Rightarrow> nat \<Rightarrow> fl list list"

definition BaseNrt_regressors :: "regressors \<Rightarrow> cusum \<Rightarrow> int \<Rightarrow> fl list list" where
  "BaseNrt_regressors br st date = br [date] (trend st) (harmonic_order st)"

text \<open>\<^verbatim>\<open>np.dot\<close> of one row of regressors with the coefficient cube, pixel by pixel.\<close>

definition np_dot_row :: "fl list \<Rightarrow> cube \<Rightarrow> grid" where
  "np_dot_row xs b =
     (case b of [] \<Rightarrow> []
      | b0 # bs \<Rightarrow>
          foldl (\<lambda>acc (xi, bi). map (\<lambda>(a, v). fl_add a (fl_mul xi v)) (zip acc bi))
            (replicate (length b0) (Fin 0)) (zip xs b))"

definition BaseNrt_predict :: "regressors \<Rightarrow> cusum \<Rightarrow> int \<Rightarrow> grid" where
  "BaseNrt_predict br st date =
     (case BaseNrt_regressors br st date of
        [] \<Rightarrow> []
      | xs # rest \<Rightarrow> np_dot_row xs (beta st))"

subsection \<open>The CUSUM process update and break rule\<close>

text \<open>The boundary of one pixel, from its counts \<open>n\<close> and \<open>histsize\<close>.\<close>

definition boundary_value :: "fl \<Rightarrow> 16 word \<Rightarrow> 16 word \<Rightarrow> fl" where
  "boundary_value cv k h =
     (let x = fl_div (u16_to_fl k) (u16_to_fl h) in
      fl_sqrt (fl_mul (fl_mul x (fl_sub x (Fin 1)))
        (fl_add (fl_square cv) (fl_log (fl_div x (fl_sub x (Fin 1)))))))"

text \<open>
  The quantity under the square root, over the reals, at a ratio \<open>x\<close> of the counts
  (used to state what the boundary is where every intermediate value is finite).
\<close>

definition boundary_sq :: "real \<Rightarrow> real \<Rightarrow> real" where
  "boundary_sq c x = x * (x - 1) * (c\<^sup>2 + ln (x / (x - 1)))"

definition normalize_residual :: "fl \<Rightarrow> fl \<Rightarrow> 16 word \<Rightarrow> fl" where
  "normalize_residual r s h = fl_div r (fl_mul s (fl_sqrt (u16_to_fl h)))"

definition CuSum_update_process :: "cusum \<Rightarrow> grid \<Rightarrow> bool list \<Rightarrow> cusum" where
  "CuSum_update_process st residuals is_valid =
     (let n' = map (\<lambda>(k, v). k + (if v then 1 else 0)) (zip (n st) is_valid);
          bnd = map (\<lambda>(k, h). boundary_value (critval st) k h) (zip n' (histsize st));
          boundary' = Float64 (np_where is_valid bnd (as_float (boundary st)));
          residuals_norm =
            map (\<lambda>(r, s, h). normalize_residual r s h)
              (zip residuals (zip (sigma st) (histsize st)));
          process' =
            np_where is_valid
              (map (\<lambda>(p, r). fl_add p r) (zip (process st) residuals_norm))
              (process st)
      in st\<lparr>n := n', boundary := boundary', process := process'\<rparr>)"

definition CuSum_detect_break :: "cusum \<Rightarrow> bool list" where
  "CuSum_detect_break st =
     map (\<lambda>(p, b). fl_gt (fl_abs p) b) (zip (process st) (as_float (boundary st)))"

subsection \<open>The monitoring step\<close>

text \<open>
  \<^verbatim>\<open>BaseNrt.monitor\<close> is a template: the outlier filter, the process update and the break
  detector are the methods a subclass provides or overrides, here the three function
  arguments. The break detector's answer is read through \<^verbatim>\<open>np.logical_and\<close>, that is, as
  truth values. On an instance without a mask no pixel is valid, and the mask stays unset
  (\<^verbatim>\<open>np.where\<close> then yields \<^verbatim>\<open>None\<close> at every pixel).
\<close>

definition BaseNrt_detect_extreme_outliers :: "cusum \<Rightarrow> grid \<Rightarrow> bool list \<Rightarrow> bool list" where
  "BaseNrt_detect_extreme_outliers st residuals is_valid = is_valid"

definition monitor_is_valid :: "cusum \<Rightarrow> grid \<Rightarrow> bool list" where
  "monitor_is_valid st array =
     np_logical_and (mask_is_monitored (mask st) (length array)) (map isfinite array)"

definition monitor_residuals :: "regressors \<Rightarrow> cusum \<Rightarrow> grid \<Rightarrow> int \<Rightarrow> grid" where
  "monitor_residuals br st array date =
     map (\<lambda>(a, p). fl_sub a p) (zip array (BaseNrt_predict br st date))"

definition BaseNrt_monitor ::
  "(cusum \<Rightarrow> grid \<Rightarrow> bool list \<Rightarrow> bool list) \<Rightarrow> (cusum \<Rightarrow> grid \<Rightarrow> bool list \<Rightarrow> cusum) \<Rightarrow>
   (cusum \<Rightarrow> bool list) \<Rightarrow> regressors \<Rightarrow> cusum \<Rightarrow> grid \<Rightarrow> int \<Rightarrow> cusum" where
  "BaseNrt_monitor detect_extreme_outliers update_process detect_break br st array date =
     (let residuals = monitor_residuals br st array date;
          is_valid = monitor_is_valid st array;
          is_valid = detect_extreme_outliers st residuals is_valid;
          st' = update_process st residuals is_valid;
          is_break = detect_break st'
      in st'\<lparr>mask :=
           map_option (\<lambda>ws. np_where (np_logical_and is_valid is_break)
             (replicate (length ws) 3) ws) (mask st')\<rparr>)"

definition CuSum_monitor :: "regressors \<Rightarrow> cusum \<Rightarrow> grid \<Rightarrow> int \<Rightarrow> cusum" where
  "CuSum_monitor =
     BaseNrt_monitor BaseNrt_detect_extreme_outliers CuSum_update_process CuSum_detect_break"

text \<open>A caller's sequence of monitoring steps, one acquisition and date after the other.\<close>

fun CuSum_monitor_all :: "regressors \<Rightarrow> cusum \<Rightarrow> (grid \<times> int) list \<Rightarrow> cusum" where
  "CuSum_monitor_all br st [] = st"
| "CuSum_monitor_all br st ((array, date) # rest) =
     CuSum_monitor_all br (CuSum_monitor br st array date) rest"

text \<open>
  The shape invariant of an instance over a grid of \<open>k\<close> pixels: a mask is set, every
  per-pixel array has \<open>k\<close> entries, and the coefficient cube has at least one regressor.
\<close>

definition grid_shaped :: "cusum \<Rightarrow> nat \<Rightarrow> bool" where
  "grid_shaped st k \<longleftrightarrow>
     (case mask st of None \<Rightarrow> False | Some m \<Rightarrow> length m = k) \<and>
     length (process st) = k \<and> length (as_float (boundary st)) = k \<and>
     length (sigma st) = k \<and> length (histsize st) = k \<and> length (n st) = k \<and>
     beta st \<noteq> [] \<and> list_all (\<lambda>b. length b = k) (beta st)"

subsection \<open>The default break detector\<close>

text \<open>
  \<^verbatim>\<open>np.floor_divide\<close> on floats: the floor of the quotient; the plain quotient for a zero
  divisor; NaN for an infinite dividend; and, for an infinite divisor, \<open>-1\<close> when the signs
  differ and \<open>0\<close> otherwise (as Python's \<^verbatim>\<open>//\<close>).
\<close>

fun np_floor_divide :: "fl \<Rightarrow> fl \<Rightarrow> fl" where
  "np_floor_divide NaN b = NaN"
| "np_floor_divide a NaN = NaN"
| "np_floor_divide (Fin a) (Fin b) =
     (if b = 0 then signed_inf a else Fin (of_int \<lfloor>a / b\<rfloor>))"
| "np_floor_divide (Fin a) PInf = (if a < 0 then Fin (- 1) else Fin 0)"
| "np_floor_divide (Fin a) NInf = (if 0 < a then Fin (- 1) else Fin 0)"
| "np_floor_divide a (Fin b) = (if b = 0 then a else NaN)"
| "np_floor_divide a b = NaN"

text \<open>Rounding towards zero, as the C conversion of a float to an integer does.\<close>

definition trunc_toward_zero :: "real \<Rightarrow> int" where
  "trunc_toward_zero r = (if 0 \<le> r then \<lfloor>r\<rfloor> else \<lceil>r\<rceil>)"

text \<open>
  \<^verbatim>\<open>astype\<close> from a float to an unsigned integer type is a C conversion. C defines it
  where the truncated value fits the target type. Elsewhere the result is the hardware's;
  the model takes that of x86-64, where the value is converted to a signed 32-bit integer
  and cut to the width of the target, and a value that does not fit 32 bits (NaN and the
  infinities among them) gives the number whose low bits are all zero.
\<close>

definition float_to_uint :: "fl \<Rightarrow> 'a::len word" where
  "float_to_uint v =
     (case v of
        Fin r \<Rightarrow>
          (let t = trunc_toward_zero r
           in if - (2 ^ 31) \<le> t \<and> t < 2 ^ 31 then word_of_int t else 0)
      | _ \<Rightarrow> 0)"

definition BaseNrt_detect_break :: "cusum \<Rightarrow> 8 word list" where
  "BaseNrt_detect_break st =
     map (\<lambda>(p, b). float_to_uint (np_floor_divide p b))
       (zip (process st) (as_float (boundary st)))"

text \<open>What \<^verbatim>\<open>np.logical_and\<close> in \<^verbatim>\<open>monitor\<close> reads of the default detector's bytes.\<close>

definition BaseNrt_detect_break_truth :: "cusum \<Rightarrow> bool list" where
  "BaseNrt_detect_break_truth st = map (\<lambda>w. w \<noteq> 0) (BaseNrt_detect_break st)"

text \<open>
  The specification's wording of the default detector, for comparison: the quotient of
  process by boundary, truncated to an integer, is not zero.
\<close>

definition spec_truncated_quotient_nonzero :: "real \<Rightarrow> real \<Rightarrow> bool" where
  "spec_truncated_quotient_nonzero p b \<longleftrightarrow> trunc_toward_zero (p / b) \<noteq> 0"

section \<open>Statistical kernels\<close>

text \<open>\<^verbatim>\<open>bisquare\<close> of \<^verbatim>\<open>nrt.stats\<close>; a truth value multiplies as 1.0 or 0.0.\<close>

definition bisquare_weight :: "fl \<Rightarrow> fl \<Rightarrow> fl" where
  "bisquare_weight r c =
     fl_mul (fl_of_bool (fl_lt (fl_abs r) c))
       (fl_square (fl_sub (Fin 1) (fl_square (fl_div r c))))"

definition bisquare :: "fl list \<Rightarrow> fl \<Rightarrow> fl list" where
  "bisquare resid c = map (\<lambda>r. bisquare_weight r c) resid"

definition bisquare_default_c :: fl where
  "bisquare_default_c = Fin (4685 / 1000)"

section \<open>The shared fitting pipeline\<close>

type_synonym matrix = "fl list list"

text \<open>
  An \<^verbatim>\<open>xarray.DataArray\<close> over (time, y, x): its values, one grid per time step, the
  shape \<open>(ny, nx)\<close> of a grid, the time coordinate (nanoseconds since the epoch) and the
  spatial coordinates. Every grid of the values has \<open>ny * nx\<close> pixels.
\<close>

record dataarray =
  da_values :: cube
  da_shape :: "nat \<times> nat"
  da_time :: "int list"
  da_x :: "fl list"
  da_y :: "fl list"

text \<open>A keyword argument is a number or a data array; \<^verbatim>\<open>**kwargs\<close> is a dictionary.\<close>

datatype kwval = KFloat fl | KDataArray dataarray

type_synonym kwargs = "string \<rightharpoonup> kwval"

datatype error =
  ValueError string
| NotImplementedError string
| AttributeError string
| IndexError string
| LibraryError string

text \<open>
  The fitting and screening routines (\<^verbatim>\<open>nrt.fit_methods\<close>, \<^verbatim>\<open>nrt.outliers\<close>) and the
  critical value of the recursive CUSUM test (\<^verbatim>\<open>nrt.utils_efp\<close>) are not part of the
  sources at hand. The pipeline takes them as parameters; each may raise.
\<close>

record fitters =
  shewhart :: "matrix \<Rightarrow> matrix \<Rightarrow> kwargs \<Rightarrow> error + matrix"
  ccdc_rirls :: "matrix \<Rightarrow> matrix \<Rightarrow> matrix \<Rightarrow> matrix \<Rightarrow> kwargs \<Rightarrow> error + matrix"
  roc_stable_fit ::
    "matrix \<Rightarrow> matrix \<Rightarrow> int list \<Rightarrow> kwval \<Rightarrow> fl \<Rightarrow> error + (matrix \<times> matrix \<times> bool list)"
  ccdc_stable_fit ::
    "matrix \<Rightarrow> matrix \<Rightarrow> int list \<Rightarrow> kwargs \<Rightarrow> error + (matrix \<times> matrix \<times> bool list)"
  ols :: "matrix \<Rightarrow> matrix \<Rightarrow> error + (matrix \<times> matrix)"
  rirls :: "matrix \<Rightarrow> matrix \<Rightarrow> kwargs \<Rightarrow> error + (matrix \<times> matrix)"
  cusum_rec_test_crit :: "kwval \<Rightarrow> error + fl"

text \<open>\<^verbatim>\<open>X.shape[1]\<close>, the number of regressors.\<close>

definition ncols :: "matrix \<Rightarrow> nat" where
  "ncols X = (case X of [] \<Rightarrow> 0 | r # rs \<Rightarrow> length r)"

text \<open>\<^verbatim>\<open>a[:, mask_bool]\<close>: the selected pixels of every grid, and the assignment to them.\<close>

definition select_pixels :: "bool list \<Rightarrow> 'a list \<Rightarrow> 'a list" where
  "select_pixels sel row = map snd (filter fst (zip sel row))"

fun scatter_pixels :: "bool list \<Rightarrow> 'a list \<Rightarrow> 'a list \<Rightarrow> 'a list" where
  "scatter_pixels [] full flat = full"
| "scatter_pixels (s # sel) [] flat = []"
| "scatter_pixels (True # sel) (v # full) [] = v # full"
| "scatter_pixels (True # sel) (v # full) (w # flat) = w # scatter_pixels sel full flat"
| "scatter_pixels (False # sel) (v # full) flat = v # scatter_pixels sel full flat"

definition count_true :: "bool list \<Rightarrow> nat" where
  "count_true sel = length (filter (\<lambda>b. b) sel)"

text \<open>
  \<^verbatim>\<open>full[:, mask_bool] = flat\<close>, for \<open>rows\<close> grids of zeros. The value assigned must have
  the shape of the selection; a value NumPy would broadcast is refused here as well.
\<close>

definition assign_selected :: "nat \<Rightarrow> bool list \<Rightarrow> matrix \<Rightarrow> error + cube" where
  "assign_selected rows sel flat =
     (if length flat = rows \<and> list_all (\<lambda>r. length r = count_true sel) flat
      then Inr (map (\<lambda>r. scatter_pixels sel (replicate (length sel) (Fin 0)) r) flat)
      else Inl (ValueError ''shape mismatch: value array could not be broadcast to indexing result''))"

text \<open>\<^verbatim>\<open>kwargs.pop(name).values.astype(np.float32)[:, mask_bool]\<close>, the key present.\<close>

definition band_flat :: "kwval \<Rightarrow> nat \<times> nat \<Rightarrow> bool list \<Rightarrow> error + matrix" where
  "band_flat v shape sel =
     (case v of
        KFloat f \<Rightarrow> Inl (AttributeError ''values'')
      | KDataArray d \<Rightarrow>
          if da_shape d = shape then Inr (map (select_pixels sel) (da_values d))
          else Inl (IndexError ''boolean index did not match indexed array''))"

text \<open>The messages of two of the configuration errors.\<close>

definition ccdc_requires_trend :: string where
  \<open>ccdc_requires_trend = ''Method "CCDC" requires "trend" to be true.''\<close>

definition green_swir_required :: string where
  "green_swir_required = ''Parameters `green` and `swir` need to be passed for CCDC_RIRLS.''"

text \<open>Step 1 of \<^verbatim>\<open>_fit\<close>: the screened values and the keyword arguments that remain.\<close>

definition fit_screen_outliers ::
  "fitters \<Rightarrow> matrix \<Rightarrow> matrix \<Rightarrow> nat \<times> nat \<Rightarrow> bool list \<Rightarrow> string option \<Rightarrow> kwargs \<Rightarrow>
   error + (matrix \<times> kwargs)" where
  "fit_screen_outliers F X y_flat shape mask_bool screen_outliers kw =
     (if screen_outliers = Some ''Shewhart'' then
        (case shewhart F X y_flat kw of Inl e \<Rightarrow> Inl e | Inr y' \<Rightarrow> Inr (y', kw))
      else if screen_outliers = Some ''CCDC_RIRLS'' then
        (case kw ''green'' of
           None \<Rightarrow> Inl (ValueError green_swir_required)
         | Some g \<Rightarrow>
            (case band_flat g shape mask_bool of
               Inl e \<Rightarrow> Inl e
             | Inr green_flat \<Rightarrow>
                (case (kw(''green'' := None)) ''swir'' of
                   None \<Rightarrow> Inl (ValueError green_swir_required)
                 | Some w \<Rightarrow>
                    (case band_flat w shape mask_bool of
                       Inl e \<Rightarrow> Inl e
                     | Inr swir_flat \<Rightarrow>
                        (let kw' = kw(''green'' := None, ''swir'' := None) in
                         case ccdc_rirls F X y_flat green_flat swir_flat kw' of
                           Inl e \<Rightarrow> Inl e
                         | Inr y' \<Rightarrow> Inr (y', kw'))))))
      else if screen_outliers \<noteq> None \<and> screen_outliers \<noteq> Some [] then
        Inl (ValueError ''Unknown screen_outliers'')
      else Inr (y_flat, kw))"

text \<open>\<^verbatim>\<open>astype('datetime64[D]').astype('int')\<close>: whole days since the epoch.\<close>

definition to_days :: "int \<Rightarrow> int" where
  "to_days t = t div 86400000000000"

text \<open>
  \<^verbatim>\<open>is_stable.reshape(ny, nx)\<close> followed by \<^verbatim>\<open>self.mask[~is_stable_2d] = 2\<close>. The reshape
  raises unless the vector has exactly \<open>ny * nx\<close> entries.
\<close>

definition mark_unstable :: "bool list \<Rightarrow> nat \<times> nat \<Rightarrow> 8 word list \<Rightarrow> error + 8 word list" where
  "mark_unstable is_stable shape m =
     (if length is_stable = fst shape * snd shape
      then Inr (np_where (map Not is_stable) (replicate (length m) 2) m)
      else Inl (ValueError ''cannot reshape array''))"

definition alpha_warning :: string where
  "alpha_warning = ''Parameter `alpha` needs to be passed for ROC fit. Using alpha of 0.05.''"

definition default_alpha :: kwval where
  "default_alpha = KFloat (Fin (5 / 100))"

text \<open>
  Step 2 of \<^verbatim>\<open>_fit\<close>: the flat coefficients and residuals, the mask (changed by the two
  methods that test stability) and the warnings given. The mask is returned with an error
  as well, as the instance keeps it.
\<close>

definition fit_method ::
  "fitters \<Rightarrow> bool \<Rightarrow> matrix \<Rightarrow> dataarray \<Rightarrow> matrix \<Rightarrow> string \<Rightarrow> kwargs \<Rightarrow> 8 word list \<Rightarrow>
   (error + (matrix \<times> matrix)) \<times> 8 word list \<times> string list" where
  "fit_method F trend_flag X da y_flat method kw m =
     (if method = ''ROC'' then
        (let (alpha, warned) =
               (case kw ''alpha'' of
                  Some a \<Rightarrow> (a, [])
                | None \<Rightarrow> (default_alpha, [alpha_warning]));
             dates = map to_days (da_time da)
         in case cusum_rec_test_crit F alpha of
              Inl e \<Rightarrow> (Inl e, m, warned)
            | Inr crit \<Rightarrow>
               (case roc_stable_fit F X y_flat dates alpha crit of
                  Inl e \<Rightarrow> (Inl e, m, warned)
                | Inr (beta_flat, residuals_flat, is_stable) \<Rightarrow>
                   (case mark_unstable is_stable (da_shape da) m of
                      Inl e \<Rightarrow> (Inl e, m, warned)
                    | Inr m' \<Rightarrow> (Inr (beta_flat, residuals_flat), m', warned))))
      else if method = ''CCDC-stable'' then
        (if \<not> trend_flag then
           (Inl (ValueError ccdc_requires_trend), m, [])
         else
           (case ccdc_stable_fit F X y_flat (da_time da) kw of
              Inl e \<Rightarrow> (Inl e, m, [])
            | Inr (beta_flat, residuals_flat, is_stable) \<Rightarrow>
               (case mark_unstable is_stable (da_shape da) m of
                  Inl e \<Rightarrow> (Inl e, m, [])
                | Inr m' \<Rightarrow> (Inr (beta_flat, residuals_flat), m', []))))
      else if method = ''OLS'' then (ols F X y_flat, m, [])
      else if method = ''LASSO'' then
        (Inl (NotImplementedError ''Method not yet implemented''), m, [])
      else if method = ''RIRLS'' then (rirls F X y_flat kw, m, [])
      else (Inl (ValueError ''Unknown method''), m, []))"

text \<open>
  \<^verbatim>\<open>BaseNrt._fit\<close>. The result is what the call returns or raises, the mask of the
  instance afterwards (the only attribute the method writes) and the warnings given.
\<close>

definition BaseNrt_fit ::
  "fitters \<Rightarrow> cusum \<Rightarrow> matrix \<Rightarrow> dataarray \<Rightarrow> string \<Rightarrow> string option \<Rightarrow> kwargs \<Rightarrow>
   (error + (cube \<times> cube)) \<times> 8 word list option \<times> string list" where
  "BaseNrt_fit F st X da method screen_outliers kw =
     (let y = da_values da;
          shape = da_shape da;
          npix = fst shape * snd shape
      in if mask st = None \<and> y = [] then
           (Inl (IndexError ''index 0 is out of bounds for axis 0 with size 0''), None, [])
         else
          (let m = (case mask st of None \<Rightarrow> replicate npix 1 | Some ws \<Rightarrow> ws);
               mask_bool = map (\<lambda>w. w = 1) m
           in if length m \<noteq> npix then
                (Inl (IndexError ''boolean index did not match indexed array''), Some m, [])
              else
               (let y_flat = map (select_pixels mask_bool) y
                in case fit_screen_outliers F X y_flat shape mask_bool screen_outliers kw of
                     Inl e \<Rightarrow> (Inl e, Some m, [])
                   | Inr (y_flat', kw') \<Rightarrow>
                      (case fit_method F (trend st) X da y_flat' method kw' m of
                         (Inl e, m', warned) \<Rightarrow> (Inl e, Some m', warned)
                       | (Inr (beta_flat, residuals_flat), m', warned) \<Rightarrow>
                          (case assign_selected (ncols X) mask_bool beta_flat of
                             Inl e \<Rightarrow> (Inl e, Some m', warned)
                           | Inr beta_full \<Rightarrow>
                              (case assign_selected (length y) mask_bool residuals_flat of
                                 Inl e \<Rightarrow> (Inl e, Some m', warned)
                               | Inr residuals_full \<Rightarrow>
                                  (Inr (beta_full, residuals_full), Some m', warned)))))))"

section \<open>The CUSUM monitor's historical fit\<close>

text \<open>The values of one pixel over time.\<close>

definition pixel_series :: "cube \<Rightarrow> nat \<Rightarrow> fl list" where
  "pixel_series c j = map (\<lambda>g. g ! j) c"

definition fl_sum :: "fl list \<Rightarrow> fl" where
  "fl_sum vs = foldl fl_add (Fin 0) vs"

text \<open>
  \<^verbatim>\<open>np.nanstd(..., ddof)\<close> along time: NaN entries are left out of the count and of the
  sums, and a pixel with no more entries than \<open>ddof\<close> gets NaN.
\<close>

definition np_nanstd :: "fl list \<Rightarrow> nat \<Rightarrow> fl" where
  "np_nanstd series ddof =
     (let vals = filter (\<lambda>v. \<not> isnan v) series;
          cnt = length vals;
          avg = fl_div (fl_sum vals) (Fin (real cnt));
          sqr = map (\<lambda>v. fl_square (fl_sub v avg)) vals
      in if cnt \<le> ddof then NaN
         else fl_sqrt (fl_div (fl_sum sqr) (Fin (real cnt - real ddof))))"

text \<open>\<^verbatim>\<open>np.nancumsum(...)[-1]\<close> along time: the sum with every NaN taken as zero.\<close>

definition np_nancumsum_last :: "fl list \<Rightarrow> fl" where
  "np_nancumsum_last series = fl_sum (map (\<lambda>v. if isnan v then Fin 0 else v) series)"

text \<open>
  The statements of \<^verbatim>\<open>CuSum.fit\<close> after \<^verbatim>\<open>_fit\<close> has returned. The last one indexes the
  final time step and raises on a cube with no time step, the other attributes already set.
\<close>

definition CuSum_fit_state ::
  "cusum \<Rightarrow> nat \<Rightarrow> nat \<Rightarrow> cube \<Rightarrow> cube \<Rightarrow> error option \<times> cusum" where
  "CuSum_fit_state st npix ddof beta_full residuals =
     (let series = map (pixel_series residuals) [0..<npix];
          histsize' = map (\<lambda>s. (of_nat (length (filter (\<lambda>v. \<not> isnan v) s)) :: 16 word)) series;
          boundary' = UInt16 (map (\<lambda>h. float_to_uint NaN) histsize');
          sigma' = map (\<lambda>s. np_nanstd s ddof) series;
          residuals_norm =
            map (\<lambda>g. map (\<lambda>(r, s, h). normalize_residual r s h) (zip g (zip sigma' histsize')))
              residuals;
          st' = st\<lparr>beta := beta_full, histsize := histsize', n := histsize',
                   boundary := boundary', sigma := sigma'\<rparr>
      in if residuals = [] then
           (Some (IndexError ''index -1 is out of bounds for axis 0 with size 0''), st')
         else
           (None, st'\<lparr>process := map (\<lambda>j. np_nancumsum_last (pixel_series residuals_norm j))
                                   [0..<npix]\<rparr>))"

text \<open>
  \<^verbatim>\<open>CuSum.fit\<close>: the error raised, if any, the instance afterwards and the warnings. The
  significance level \<open>alpha\<close> travels to \<^verbatim>\<open>_fit\<close> among the keyword arguments, and a
  screening method, being a named parameter of \<^verbatim>\<open>_fit\<close>, is an argument of its own.
\<close>

definition CuSum_fit ::
  "fitters \<Rightarrow> regressors \<Rightarrow> cusum \<Rightarrow> dataarray \<Rightarrow> string \<Rightarrow> kwval \<Rightarrow> string option \<Rightarrow> kwargs \<Rightarrow>
   error option \<times> cusum \<times> string list" where
  "CuSum_fit F br st da method alpha screen_outliers kw =
     (let st1 = st\<lparr>x_coords := da_x da, y_coords := da_y da\<rparr>;
          X = br (da_time da) (trend st1) (harmonic_order st1)
      in case BaseNrt_fit F st1 X da method screen_outliers (kw(''alpha'' \<mapsto> alpha)) of
           (Inl e, m, warned) \<Rightarrow> (Some e, st1\<lparr>mask := m\<rparr>, warned)
         | (Inr (beta_full, residuals), m, warned) \<Rightarrow>
            (let (err, st2) =
                   CuSum_fit_state (st1\<lparr>mask := m\<rparr>) (fst (da_shape da) * snd (da_shape da))
                     (ncols X) beta_full residuals
             in (err, st2, warned)))"

section \<open>Predicates of the statements and concrete inputs\<close>

text \<open>
  The cube and the mask of the instance fit together, so that \<^verbatim>\<open>_fit\<close> gets as far as the
  screening: a cube with no time step cannot give the default mask its shape, and a mask
  of another size cannot index the cube.
\<close>

definition fit_input_ok :: "cusum \<Rightarrow> dataarray \<Rightarrow> bool" where
  "fit_input_ok st da \<longleftrightarrow>
     (case mask st of
        None \<Rightarrow> da_values da \<noteq> []
      | Some m \<Rightarrow> length m = fst (da_shape da) * snd (da_shape da))"

text \<open>No screening is asked for: the default \<^verbatim>\<open>None\<close>, or any other false value.\<close>

definition no_screening :: "string option \<Rightarrow> bool" where
  "no_screening screen_outliers \<longleftrightarrow> screen_outliers = None \<or> screen_outliers = Some []"

text \<open>
  The invalid configurations of \<^verbatim>\<open>_fit\<close>: the unimplemented method, an unknown method
  name, an unknown (non-empty) screening name, the CCDC fit without a trend, and the CCDC
  screening without one of its two bands.
\<close>

definition invalid_configuration :: "bool \<Rightarrow> string \<Rightarrow> string option \<Rightarrow> kwargs \<Rightarrow> bool" where
  "invalid_configuration trend_flag method screen_outliers kw \<longleftrightarrow>
     method = ''LASSO'' \<or>
     method \<notin> set [''OLS'', ''RIRLS'', ''ROC'', ''CCDC-stable'', ''LASSO''] \<or>
     (case screen_outliers of
        None \<Rightarrow> False
      | Some s \<Rightarrow> s \<noteq> [] \<and> s \<noteq> ''Shewhart'' \<and> s \<noteq> ''CCDC_RIRLS'') \<or>
     (method = ''CCDC-stable'' \<and> \<not> trend_flag) \<or>
     (screen_outliers = Some ''CCDC_RIRLS'' \<and> (kw ''green'' = None \<or> kw ''swir'' = None))"

text \<open>The screening routines do not read the keyword \<^verbatim>\<open>alpha\<close>.\<close>

definition screening_ignores_alpha :: "fitters \<Rightarrow> bool" where
  "screening_ignores_alpha F \<longleftrightarrow>
     (\<forall>X y kw v. shewhart F X y (kw(''alpha'' \<mapsto> v)) = shewhart F X y kw) \<and>
     (\<forall>X y g w kw v. ccdc_rirls F X y g w (kw(''alpha'' \<mapsto> v)) = ccdc_rirls F X y g w kw)"

text \<open>
  The routines of the fitting library keep to the shape of what they are given: a
  screening returns as many series as it received, and the two fits that test stability
  return one flag per series.
\<close>

definition fitters_keep_shape :: "fitters \<Rightarrow> bool" where
  "fitters_keep_shape F \<longleftrightarrow>
     (\<forall>X y kw y'. shewhart F X y kw = Inr y' \<longrightarrow> ncols y' = ncols y) \<and>
     (\<forall>X y g w kw y'. ccdc_rirls F X y g w kw = Inr y' \<longrightarrow> ncols y' = ncols y) \<and>
     (\<forall>X y d a c b r s. roc_stable_fit F X y d a c = Inr (b, r, s) \<longrightarrow> length s = ncols y) \<and>
     (\<forall>X y d kw b r s. ccdc_stable_fit F X y d kw = Inr (b, r, s) \<longrightarrow> length s = ncols y)"

text \<open>A cube with at least one time step, each of its grids of the size its shape states.\<close>

definition cube_ok :: "dataarray \<Rightarrow> bool" where
  "cube_ok da \<longleftrightarrow>
     da_values da \<noteq> [] \<and>
     list_all (\<lambda>g. length g = fst (da_shape da) * snd (da_shape da)) (da_values da)"

text \<open>
  A stand-in for the fitting library, for concrete runs: screening changes nothing, every
  fit returns zero coefficients and zero residuals, and every series is stable.
\<close>

definition zero_fit :: "matrix \<Rightarrow> matrix \<Rightarrow> matrix \<times> matrix" where
  "zero_fit X y = (replicate (ncols X) (replicate (ncols y) (Fin 0)), map (map (\<lambda>v. Fin 0)) y)"

definition stub_fitters :: fitters where
  "stub_fitters =
     \<lparr>shewhart = (\<lambda>X y kw. Inr y),
      ccdc_rirls = (\<lambda>X y g w kw. Inr y),
      roc_stable_fit = (\<lambda>X y d a c.
        Inr (fst (zero_fit X y), snd (zero_fit X y), replicate (ncols y) True)),
      ccdc_stable_fit = (\<lambda>X y d kw.
        Inr (fst (zero_fit X y), snd (zero_fit X y), replicate (ncols y) True)),
      ols = (\<lambda>X y. Inr (zero_fit X y)),
      rirls = (\<lambda>X y kw. Inr (zero_fit X y)),
      cusum_rec_test_crit = (\<lambda>a. Inr (Fin 1))\<rparr>"

text \<open>Regressors with the constant column only.\<close>

definition stub_regressors :: regressors where
  "stub_regressors dates trend_flag order = map (\<lambda>d. [Fin 1]) dates"

text \<open>
  An instance over two pixels, the first monitored, the second a confirmed break, and a
  cube of one time step over the same two pixels.
\<close>

definition example_state :: cusum where
  "example_state =
     \<lparr>mask = Some [1, 3], trend = True, harmonic_order = 0,
      x_coords = [Fin 0, Fin 1], y_coords = [Fin 0],
      beta = [[Fin 0, Fin 0]], process = [Fin 0, Fin 5],
      boundary = Float64 [Fin 1, Fin 1], sensitivity = Fin (5 / 100), critval = Fin 1,
      sigma = [Fin 1, Fin 1], histsize = [4, 4], n = [4, 4]\<rparr>"

definition example_cube :: dataarray where
  "example_cube =
     \<lparr>da_values = [[Fin 1, Fin 2]], da_shape = (1, 2), da_time = [0],
      da_x = [Fin 0, Fin 1], da_y = [Fin 0]\<rparr>"

section \<open>Facts about the model\<close>

lemma length_np_where:
  "length (np_where c a b) = min (length c) (min (length a) (length b))"
  by (simp add: np_where_def)

lemma nth_np_where:
  "i < length c \<Longrightarrow> i < length a \<Longrightarrow> i < length b \<Longrightarrow>
   np_where c a b ! i = (if c ! i then a ! i else b ! i)"
  by (simp add: np_where_def)

lemma length_np_logical_and:
  "length (np_logical_and a b) = min (length a) (length b)"
  by (simp add: np_logical_and_def)

lemma nth_np_logical_and:
  "i < length a \<Longrightarrow> i < length b \<Longrightarrow> np_logical_and a b ! i = (a ! i \<and> b ! i)"
  by (simp add: np_logical_and_def)

lemma length_dot_step:
  "length (foldl (\<lambda>acc (xi, bi). map (\<lambda>(a, v). fl_add a (fl_mul xi v)) (zip acc bi)) acc0 ps)
     = k" if "length acc0 = k" "list_all (\<lambda>p. length (snd p) = k) ps"
  using that by (induction ps arbitrary: acc0) (auto split: prod.splits)

lemma length_np_dot_row:
  assumes "b \<noteq> []" "list_all (\<lambda>r. length r = k) b"
  shows "length (np_dot_row xs b) = k"
proof -
  obtain b0 bs where b: "b = b0 # bs" using assms(1) by (cases b) auto
  have l0: "length b0 = k" using assms(2) b by simp
  have "list_all (\<lambda>p. length (snd p) = k) (zip xs b)"
    using assms(2) by (auto simp: list_all_iff dest: set_zip_rightD)
  then show ?thesis
    unfolding np_dot_row_def b list.case
    by (intro length_dot_step) (simp_all add: l0 b)
qed

lemma length_monitor_is_valid:
  "grid_shaped st k \<Longrightarrow> length array = k \<Longrightarrow> length (monitor_is_valid st array) = k"
  by (auto simp: grid_shaped_def monitor_is_valid_def length_np_logical_and
      mask_is_monitored_def split: option.splits)

lemma nth_monitor_is_valid:
  "mask st = Some m \<Longrightarrow> length m = length array \<Longrightarrow> i < length array \<Longrightarrow>
   monitor_is_valid st array ! i = (m ! i = 1 \<and> isfinite (array ! i))"
  by (simp add: monitor_is_valid_def mask_is_monitored_def nth_np_logical_and)

lemma length_predict:
  "grid_shaped st k \<Longrightarrow> BaseNrt_regressors br st date \<noteq> [] \<Longrightarrow>
   length (BaseNrt_predict br st date) = k"
  by (auto simp: BaseNrt_predict_def grid_shaped_def length_np_dot_row split: list.splits)

lemma length_monitor_residuals:
  "grid_shaped st k \<Longrightarrow> BaseNrt_regressors br st date \<noteq> [] \<Longrightarrow> length array = k \<Longrightarrow>
   length (monitor_residuals br st array date) = k"
  by (simp add: monitor_residuals_def length_predict)

lemma update_process_fields:
  "sigma (CuSum_update_process st r v) = sigma st"
  "histsize (CuSum_update_process st r v) = histsize st"
  "beta (CuSum_update_process st r v) = beta st"
  "mask (CuSum_update_process st r v) = mask st"
  "critval (CuSum_update_process st r v) = critval st"
  "trend (CuSum_update_process st r v) = trend st"
  "harmonic_order (CuSum_update_process st r v) = harmonic_order st"
  by (simp_all add: CuSum_update_process_def Let_def)

lemma update_process_lengths:
  assumes "grid_shaped st k" "length r = k" "length v = k"
  shows "length (n (CuSum_update_process st r v)) = k"
    and "length (process (CuSum_update_process st r v)) = k"
    and "length (as_float (boundary (CuSum_update_process st r v))) = k"
  using assms by (simp_all add: CuSum_update_process_def Let_def grid_shaped_def length_np_where)

lemma update_process_frame:
  assumes "grid_shaped st k" "length r = k" "length v = k" "i < k" "\<not> v ! i"
  shows "n (CuSum_update_process st r v) ! i = n st ! i"
    and "process (CuSum_update_process st r v) ! i = process st ! i"
    and "as_float (boundary (CuSum_update_process st r v)) ! i = as_float (boundary st) ! i"
  using assms by (simp_all add: CuSum_update_process_def Let_def grid_shaped_def nth_np_where)

lemma CuSum_monitor_unfold:
  "CuSum_monitor br st array date =
     (let v = monitor_is_valid st array;
          st' = CuSum_update_process st (monitor_residuals br st array date) v
      in st'\<lparr>mask := map_option (\<lambda>ws. np_where (np_logical_and v (CuSum_detect_break st'))
             (replicate (length ws) 3) ws) (mask st)\<rparr>)"
  by (simp add: CuSum_monitor_def BaseNrt_monitor_def Let_def
      BaseNrt_detect_extreme_outliers_def update_process_fields)

lemma length_detect_break:
  "length (CuSum_detect_break st) = min (length (process st)) (length (as_float (boundary st)))"
  by (simp add: CuSum_detect_break_def)

lemma nth_detect_break:
  "i < length (process st) \<Longrightarrow> i < length (as_float (boundary st)) \<Longrightarrow>
   CuSum_detect_break st ! i = fl_gt (fl_abs (process st ! i)) (as_float (boundary st) ! i)"
  by (simp add: CuSum_detect_break_def)

lemma monitor_grid_shaped:
  assumes "grid_shaped st k" "length array = k" "BaseNrt_regressors br st date \<noteq> []"
  shows "grid_shaped (CuSum_monitor br st array date) k"
proof -
  let ?v = "monitor_is_valid st array"
  let ?r = "monitor_residuals br st array date"
  let ?st = "CuSum_update_process st ?r ?v"
  have lv: "length ?v = k" using assms by (simp add: length_monitor_is_valid)
  have lr: "length ?r = k" using assms by (simp add: length_monitor_residuals)
  note L = update_process_lengths [OF assms(1) lr lv]
  obtain m where m: "mask st = Some m" "length m = k"
    using assms(1) by (auto simp: grid_shaped_def split: option.splits)
  show ?thesis
    using assms(1) L m lv
    by (simp add: CuSum_monitor_unfold Let_def grid_shaped_def update_process_fields
        length_np_where length_np_logical_and length_detect_break)
qed

lemma monitor_frame:
  assumes "grid_shaped st k" "length array = k" "BaseNrt_regressors br st date \<noteq> []"
    and "i < k" "\<not> monitor_is_valid st array ! i"
  shows "n (CuSum_monitor br st array date) ! i = n st ! i"
    and "process (CuSum_monitor br st array date) ! i = process st ! i"
    and "as_float (boundary (CuSum_monitor br st array date)) ! i = as_float (boundary st) ! i"
proof -
  let ?v = "monitor_is_valid st array"
  let ?r = "monitor_residuals br st array date"
  have lv: "length ?v = k" using assms by (simp add: length_monitor_is_valid)
  have lr: "length ?r = k" using assms by (simp add: length_monitor_residuals)
  note F = update_process_frame [OF assms(1) lr lv assms(4,5)]
  show "n (CuSum_monitor br st array date) ! i = n st ! i"
    and "process (CuSum_monitor br st array date) ! i = process st ! i"
    and "as_float (boundary (CuSum_monitor br st array date)) ! i = as_float (boundary st) ! i"
    using F by (simp_all add: CuSum_monitor_unfold Let_def)
qed

lemma monitor_same_fields:
  "sigma (CuSum_monitor br st array date) = sigma st"
  "histsize (CuSum_monitor br st array date) = histsize st"
  "beta (CuSum_monitor br st array date) = beta st"
  "critval (CuSum_monitor br st array date) = critval st"
  "trend (CuSum_monitor br st array date) = trend st"
  "harmonic_order (CuSum_monitor br st array date) = harmonic_order st"
  by (simp_all add: CuSum_monitor_unfold Let_def update_process_fields)

lemma monitor_mask_nth:
  assumes "grid_shaped st k" "length array = k" "BaseNrt_regressors br st date \<noteq> []"
    and "i < k" "mask st = Some m"
  shows "\<exists>m'. mask (CuSum_monitor br st array date) = Some m' \<and> length m' = k \<and>
     m' ! i = (if monitor_is_valid st array ! i \<and>
                  CuSum_detect_break (CuSum_update_process st
                    (monitor_residuals br st array date) (monitor_is_valid st array)) ! i
               then 3 else m ! i)"
proof -
  let ?v = "monitor_is_valid st array"
  let ?r = "monitor_residuals br st array date"
  have lv: "length ?v = k" using assms by (simp add: length_monitor_is_valid)
  have lr: "length ?r = k" using assms by (simp add: length_monitor_residuals)
  note L = update_process_lengths [OF assms(1) lr lv]
  have lm: "length m = k" using assms(1,5) by (simp add: grid_shaped_def)
  show ?thesis
    using L lm lv assms(4,5)
    by (simp add: CuSum_monitor_unfold Let_def length_np_where length_np_logical_and
        length_detect_break nth_np_where nth_np_logical_and)
qed

lemma ln_ratio_lower:
  fixes x :: real
  assumes "1 < x"
  shows "1 / x \<le> ln (x / (x - 1))"
proof -
  have pos: "0 < (x - 1) / x" using assms by simp
  have "ln ((x - 1) / x) \<le> (x - 1) / x - 1" by (rule ln_le_minus_one [OF pos])
  also have "(x - 1) / x - 1 = - (1 / x)" using assms by (simp add: field_simps)
  finally have "ln ((x - 1) / x) \<le> - (1 / x)" .
  moreover have "ln (x / (x - 1)) = - ln ((x - 1) / x)"
    using assms by (simp add: ln_div)
  ultimately show ?thesis by simp
qed

lemma boundary_sq_nonneg:
  fixes x :: real
  assumes "1 < x"
  shows "0 \<le> boundary_sq c x"
proof -
  have "0 \<le> ln (x / (x - 1))"
  proof -
    have "0 \<le> 1 / x" using assms by simp
    then show ?thesis using ln_ratio_lower [OF assms] by linarith
  qed
  then have "0 \<le> c\<^sup>2 + ln (x / (x - 1))" by simp
  moreover have "0 \<le> x * (x - 1)" using assms by simp
  ultimately show ?thesis unfolding boundary_sq_def by (rule mult_nonneg_nonneg [rotated])
qed

lemma boundary_sq_deriv:
  fixes x :: real
  assumes "1 < x"
  shows "((\<lambda>x. x * (x - 1) * (c\<^sup>2 + (ln x - ln (x - 1)))) has_real_derivative
           ((2 * x - 1) * (c\<^sup>2 + (ln x - ln (x - 1))) - 1)) (at x)"
proof -
  have x0: "x \<noteq> 0" and x1: "x - 1 \<noteq> 0" and xp: "0 < x" "0 < x - 1" using assms by simp_all
  have raw: "((\<lambda>x. x * (x - 1) * (c\<^sup>2 + (ln x - ln (x - 1)))) has_real_derivative
      ((1 * (x - 1) + x * 1) * (c\<^sup>2 + (ln x - ln (x - 1)))
        + x * (x - 1) * (1 / x - 1 / (x - 1)))) (at x)"
    using xp by (auto intro!: derivative_eq_intros)
  have "x * (x - 1) * (1 / x) = x - 1" "x * (x - 1) * (1 / (x - 1)) = x"
    using x0 x1 by simp_all
  then have "x * (x - 1) * (1 / x - 1 / (x - 1)) = (x - 1) - x"
    by (simp only: right_diff_distrib)
  then have "(1 * (x - 1) + x * 1) * (c\<^sup>2 + (ln x - ln (x - 1)))
        + x * (x - 1) * (1 / x - 1 / (x - 1))
      = (2 * x - 1) * (c\<^sup>2 + (ln x - ln (x - 1))) - 1"
    by (simp add: algebra_simps)
  with raw show ?thesis by simp
qed

lemma boundary_sq_mono:
  fixes a b :: real
  assumes "1 < a" "a \<le> b"
  shows "boundary_sq c a \<le> boundary_sq c b"
proof -
  let ?h = "\<lambda>x. x * (x - 1) * (c\<^sup>2 + (ln x - ln (x - 1)))"
  have eq: "boundary_sq c x = ?h x" if "1 < x" for x
    using that by (simp add: boundary_sq_def ln_div)
  have "?h a \<le> ?h b"
  proof (rule DERIV_nonneg_imp_nondecreasing [OF assms(2)])
    fix x assume "a \<le> x" "x \<le> b"
    then have x: "1 < x" using assms(1) by simp
    have l: "1 / x \<le> ln x - ln (x - 1)"
      using ln_ratio_lower [OF x] x by (simp add: ln_div)
    have "1 \<le> (2 * x - 1) * (1 / x)" using x by (simp add: field_simps)
    also have "\<dots> \<le> (2 * x - 1) * (ln x - ln (x - 1))"
      using l x by (intro mult_left_mono) simp_all
    also have "\<dots> \<le> (2 * x - 1) * (c\<^sup>2 + (ln x - ln (x - 1)))"
      using x by (intro mult_left_mono) simp_all
    finally have "0 \<le> (2 * x - 1) * (c\<^sup>2 + (ln x - ln (x - 1))) - 1" by simp
    with boundary_sq_deriv [OF x, of c]
    show "\<exists>y. (?h has_real_derivative y) (at x) \<and> 0 \<le> y" by blast
  qed
  then show ?thesis using assms by (simp add: eq)
qed

lemma boundary_formula_finite:
  fixes x :: real
  assumes "1 < x"
  shows "fl_sqrt (fl_mul (fl_mul (Fin x) (fl_sub (Fin x) (Fin 1)))
           (fl_add (fl_square (Fin c)) (fl_log (fl_div (Fin x) (fl_sub (Fin x) (Fin 1))))))
         = Fin (sqrt (boundary_sq c x))"
proof -
  have x1: "x - 1 \<noteq> 0" using assms by simp
  have q: "0 < x / (x - 1)" using assms by simp
  have nn: "\<not> boundary_sq c x < 0" using boundary_sq_nonneg [OF assms, of c] by simp
  have d: "fl_div (Fin x) (fl_sub (Fin x) (Fin 1)) = Fin (x / (x - 1))"
    using x1 by (simp add: fl_sub_def)
  have l: "fl_log (Fin (x / (x - 1))) = Fin (ln (x / (x - 1)))"
    using q by (simp del: divide_eq_0_iff)
  have "fl_sqrt (fl_mul (fl_mul (Fin x) (fl_sub (Fin x) (Fin 1)))
           (fl_add (fl_square (Fin c)) (fl_log (fl_div (Fin x) (fl_sub (Fin x) (Fin 1))))))
        = fl_sqrt (Fin (boundary_sq c x))"
    unfolding d l by (simp add: fl_sub_def fl_square_def boundary_sq_def power2_eq_square)
  also have "\<dots> = Fin (sqrt (boundary_sq c x))" using nn by simp
  finally show ?thesis .
qed

lemma boundary_value_finite:
  assumes "unat k = kn" "unat h = hn" "0 < hn" "hn < kn"
  shows "boundary_value (Fin c) k h = Fin (sqrt (boundary_sq c (real kn / real hn)))"
proof -
  have x: "1 < real kn / real hn" using assms(3,4) by simp
  have h0: "real hn \<noteq> 0" using assms(3) by simp
  have "boundary_value (Fin c) k h =
      (let x = fl_div (Fin (real kn)) (Fin (real hn)) in
        fl_sqrt (fl_mul (fl_mul x (fl_sub x (Fin 1)))
          (fl_add (fl_square (Fin c)) (fl_log (fl_div x (fl_sub x (Fin 1)))))))"
    unfolding boundary_value_def u16_to_fl_def assms(1,2) ..
  also have "fl_div (Fin (real kn)) (Fin (real hn)) = Fin (real kn / real hn)"
    using h0 by simp
  finally show ?thesis
    unfolding Let_def by (simp only: boundary_formula_finite [OF x])
qed

lemma regressors_after_monitor:
  "BaseNrt_regressors br (CuSum_monitor br' st array date) d = BaseNrt_regressors br st d"
  by (simp add: BaseNrt_regressors_def monitor_same_fields)

lemma monitor_terminal_step:
  assumes "grid_shaped st k" "length array = k" "BaseNrt_regressors br st date \<noteq> []"
    and "i < k" "mask st = Some m" "m ! i = 3"
  shows "\<exists>m'. mask (CuSum_monitor br st array date) = Some m' \<and> m' ! i = 3"
    and "n (CuSum_monitor br st array date) ! i = n st ! i"
    and "process (CuSum_monitor br st array date) ! i = process st ! i"
    and "as_float (boundary (CuSum_monitor br st array date)) ! i = as_float (boundary st) ! i"
proof -
  have lm: "length m = length array" using assms(1,2,5) by (simp add: grid_shaped_def)
  have nv: "\<not> monitor_is_valid st array ! i"
    using assms(2,4,6) by (simp add: nth_monitor_is_valid [OF assms(5) lm])
  show "\<exists>m'. mask (CuSum_monitor br st array date) = Some m' \<and> m' ! i = 3"
    using monitor_mask_nth [OF assms(1-5)] assms(6) by auto
  show "n (CuSum_monitor br st array date) ! i = n st ! i"
    and "process (CuSum_monitor br st array date) ! i = process st ! i"
    and "as_float (boundary (CuSum_monitor br st array date)) ! i = as_float (boundary st) ! i"
    using monitor_frame [OF assms(1-4) nv] by simp_all
qed

lemma monitor_all_terminal:
  assumes "grid_shaped st k"
    and "list_all (\<lambda>(array, date). length array = k \<and> BaseNrt_regressors br st date \<noteq> []) obs"
    and "i < k" "mask st = Some m" "m ! i = 3"
  shows "grid_shaped (CuSum_monitor_all br st obs) k \<and>
         (\<exists>m'. mask (CuSum_monitor_all br st obs) = Some m' \<and> m' ! i = 3) \<and>
         n (CuSum_monitor_all br st obs) ! i = n st ! i \<and>
         process (CuSum_monitor_all br st obs) ! i = process st ! i \<and>
         as_float (boundary (CuSum_monitor_all br st obs)) ! i = as_float (boundary st) ! i \<and>
         sigma (CuSum_monitor_all br st obs) = sigma st \<and>
         histsize (CuSum_monitor_all br st obs) = histsize st \<and>
         beta (CuSum_monitor_all br st obs) = beta st"
  using assms
proof (induction obs arbitrary: st m)
  case Nil
  then show ?case by simp
next
  case (Cons ob obs)
  obtain array date where ob: "ob = (array, date)" by (cases ob)
  let ?st = "CuSum_monitor br st array date"
  have la: "length array = k" and rg: "BaseNrt_regressors br st date \<noteq> []"
    using Cons.prems(2) ob by simp_all
  note step = monitor_terminal_step [OF Cons.prems(1) la rg Cons.prems(3,4,5)]
  obtain m' where m': "mask ?st = Some m'" "m' ! i = 3" using step(1) by blast
  have gs: "grid_shaped ?st k" by (rule monitor_grid_shaped [OF Cons.prems(1) la rg])
  have rest: "list_all (\<lambda>(array, date). length array = k \<and> BaseNrt_regressors br ?st date \<noteq> []) obs"
    using Cons.prems(2) by (simp add: regressors_after_monitor)
  note IH = Cons.IH [OF gs rest Cons.prems(3) m']
  show ?case
    using IH step(2-4) by (simp add: ob monitor_same_fields)
qed

lemma example_state_shaped: "grid_shaped example_state 2"
  by (simp add: grid_shaped_def example_state_def)

lemma stub_regressors_row: "BaseNrt_regressors stub_regressors st date \<noteq> []"
  by (simp add: BaseNrt_regressors_def stub_regressors_def)

lemma bisquare_weight_finite:
  "c \<noteq> 0 \<Longrightarrow> bisquare_weight (Fin r) (Fin c)
     = Fin ((if \<bar>r\<bar> < c then 1 else 0) * (1 - (r / c)\<^sup>2)\<^sup>2)"
  by (simp add: bisquare_weight_def fl_of_bool_def fl_square_def fl_sub_def power2_eq_square)

lemma bisquare_finite_outside:
  "4685 / 1000 \<le> \<bar>r\<bar> \<Longrightarrow> bisquare [Fin r] bisquare_default_c = [Fin 0]"
  by (simp add: bisquare_def bisquare_default_c_def bisquare_weight_finite)

lemma bisquare_zero: "bisquare [Fin 0] bisquare_default_c = [Fin 1]"
  by (simp add: bisquare_def bisquare_default_c_def bisquare_weight_finite)

lemma trunc_nonneg: "0 \<le> r \<Longrightarrow> trunc_toward_zero r = \<lfloor>r\<rfloor>"
  by (simp add: trunc_toward_zero_def)

lemma float_to_uint8_in_range:
  assumes "0 \<le> z" "z < 256"
  shows "(float_to_uint (Fin (of_int z)) :: 8 word) = word_of_int z"
    and "uint (float_to_uint (Fin (of_int z)) :: 8 word) = z"
    and "(float_to_uint (Fin (of_int z)) :: 8 word) \<noteq> 0 \<longleftrightarrow> z \<noteq> 0"
proof -
  show e: "(float_to_uint (Fin (of_int z)) :: 8 word) = word_of_int z"
    using assms by (simp add: float_to_uint_def trunc_toward_zero_def)
  show u: "uint (float_to_uint (Fin (of_int z)) :: 8 word) = z"
    using assms by (simp add: e uint_word_of_int take_bit_eq_mod)
  show "(float_to_uint (Fin (of_int z)) :: 8 word) \<noteq> 0 \<longleftrightarrow> z \<noteq> 0"
    using u by (auto simp: uint_0_iff [symmetric])
qed

lemma nth_BaseNrt_detect_break:
  "i < length (process st) \<Longrightarrow> i < length (as_float (boundary st)) \<Longrightarrow>
   BaseNrt_detect_break st ! i
     = float_to_uint (np_floor_divide (process st ! i) (as_float (boundary st) ! i))"
  by (simp add: BaseNrt_detect_break_def)

lemma float_to_uint_NaN: "float_to_uint NaN = 0"
  by (simp add: float_to_uint_def)

lemma CuSum_fit_state_boundary:
  "boundary (snd (CuSum_fit_state st npix ddof b r)) = UInt16 (replicate npix 0)"
  by (simp add: CuSum_fit_state_def Let_def float_to_uint_NaN map_replicate_const)

lemma CuSum_fit_boundary:
  assumes "CuSum_fit F br st da method alpha so kw = (None, st', warned)"
  shows "boundary st' = UInt16 (replicate (fst (da_shape da) * snd (da_shape da)) 0)"
proof -
  let ?st1 = "st\<lparr>x_coords := da_x da, y_coords := da_y da\<rparr>"
  let ?X = "br (da_time da) (trend ?st1) (harmonic_order ?st1)"
  obtain out m w where f: "BaseNrt_fit F ?st1 ?X da method so (kw(''alpha'' \<mapsto> alpha)) = (out, m, w)"
    by (cases "BaseNrt_fit F ?st1 ?X da method so (kw(''alpha'' \<mapsto> alpha))") auto
  show ?thesis
  proof (cases out)
    case (Inl e)
    then show ?thesis using assms f by (simp add: CuSum_fit_def Let_def)
  next
    case (Inr p)
    obtain bf rs where p: "p = (bf, rs)" by (cases p)
    let ?r = "CuSum_fit_state (?st1\<lparr>mask := m\<rparr>) (fst (da_shape da) * snd (da_shape da))
                (ncols ?X) bf rs"
    have "st' = snd ?r"
      using assms f Inr p by (simp add: CuSum_fit_def Let_def split: prod.splits)
    then show ?thesis by (simp add: CuSum_fit_state_boundary)
  qed
qed

lemma screen_unknown_name:
  assumes "s \<noteq> []" "s \<noteq> ''Shewhart''" "s \<noteq> ''CCDC_RIRLS''"
  shows "fit_screen_outliers F X y sh mb (Some s) kw = Inl (ValueError ''Unknown screen_outliers'')"
  using assms by (simp add: fit_screen_outliers_def)

lemma screen_green_missing:
  assumes "kw ''green'' = None"
  shows "fit_screen_outliers F X y sh mb (Some ''CCDC_RIRLS'') kw = Inl (ValueError green_swir_required)"
  using assms by (simp add: fit_screen_outliers_def)

lemma screen_band_missing:
  assumes "kw ''green'' = None \<or> kw ''swir'' = None"
  shows "\<exists>e. fit_screen_outliers F X y sh mb (Some ''CCDC_RIRLS'') kw = Inl e"
  using assms by (auto simp: fit_screen_outliers_def split: option.splits sum.splits)

lemma screen_none:
  assumes "no_screening so"
  shows "fit_screen_outliers F X y sh mb so kw = Inr (y, kw)"
  using assms by (auto simp: fit_screen_outliers_def no_screening_def)

lemma method_LASSO:
  "fit_method F t X da y ''LASSO'' kw m
     = (Inl (NotImplementedError ''Method not yet implemented''), m, [])"
  by (simp add: fit_method_def)

lemma method_unknown:
  assumes "method \<notin> set [''OLS'', ''RIRLS'', ''ROC'', ''CCDC-stable'', ''LASSO'']"
  shows "fit_method F t X da y method kw m = (Inl (ValueError ''Unknown method''), m, [])"
  using assms by (simp add: fit_method_def)

lemma method_CCDC_no_trend:
  "fit_method F False X da y ''CCDC-stable'' kw m = (Inl (ValueError ccdc_requires_trend), m, [])"
  by (simp add: fit_method_def)

lemma BaseNrt_fit_stages:
  assumes "fit_input_ok st da"
  shows "BaseNrt_fit F st X da method so kw =
     (let m = (case mask st of None \<Rightarrow> replicate (fst (da_shape da) * snd (da_shape da)) 1
               | Some ws \<Rightarrow> ws);
          mask_bool = map (\<lambda>w. w = 1) m
      in case fit_screen_outliers F X (map (select_pixels mask_bool) (da_values da))
                (da_shape da) mask_bool so kw of
           Inl e \<Rightarrow> (Inl e, Some m, [])
         | Inr (y_flat', kw') \<Rightarrow>
            (case fit_method F (trend st) X da y_flat' method kw' m of
               (Inl e, m', warned) \<Rightarrow> (Inl e, Some m', warned)
             | (Inr (beta_flat, residuals_flat), m', warned) \<Rightarrow>
                (case assign_selected (ncols X) mask_bool beta_flat of
                   Inl e \<Rightarrow> (Inl e, Some m', warned)
                 | Inr beta_full \<Rightarrow>
                    (case assign_selected (length (da_values da)) mask_bool residuals_flat of
                       Inl e \<Rightarrow> (Inl e, Some m', warned)
                     | Inr residuals_full \<Rightarrow>
                        (Inr (beta_full, residuals_full), Some m', warned)))))"
  using assms
  by (cases "mask st") (simp_all add: BaseNrt_fit_def fit_input_ok_def Let_def)

lemma fit_early_error_or_stages:
  "(\<exists>e m. BaseNrt_fit F st X da method so kw = (Inl e, m, [])) \<or> fit_input_ok st da"
  by (cases "mask st") (auto simp: BaseNrt_fit_def fit_input_ok_def Let_def)

lemma fit_screen_error:
  assumes "fit_input_ok st da"
    and "\<And>y sh mb. fit_screen_outliers F X y sh mb so kw = Inl e"
  shows "fst (BaseNrt_fit F st X da method so kw) = Inl e"
  by (simp add: BaseNrt_fit_stages [OF assms(1)] Let_def assms(2))

lemma fit_method_error:
  assumes "fit_input_ok st da" "no_screening so"
    and "\<And>y m. fit_method F (trend st) X da y method kw m = (Inl e, m, [])"
  shows "fst (BaseNrt_fit F st X da method so kw) = Inl e"
  by (simp add: BaseNrt_fit_stages [OF assms(1)] Let_def screen_none [OF assms(2)] assms(3))

lemma fit_method_isl:
  assumes "\<And>y k m. \<exists>e. fst (fit_method F (trend st) X da y method k m) = Inl e"
  shows "\<exists>e. fst (BaseNrt_fit F st X da method so kw) = Inl e"
proof -
  consider (early) "\<exists>e m. BaseNrt_fit F st X da method so kw = (Inl e, m, [])"
    | (ok) "fit_input_ok st da"
    using fit_early_error_or_stages by blast
  then show ?thesis
  proof cases
    case early
    then show ?thesis by auto
  next
    case ok
    let ?m = "case mask st of None \<Rightarrow> replicate (fst (da_shape da) * snd (da_shape da)) 1
               | Some ws \<Rightarrow> ws"
    let ?mb = "map (\<lambda>w. w = 1) ?m"
    show ?thesis
    proof (cases "fit_screen_outliers F X (map (select_pixels ?mb) (da_values da))
                (da_shape da) ?mb so kw")
      case (Inl e)
      then show ?thesis by (simp add: BaseNrt_fit_stages [OF ok] Let_def)
    next
      case (Inr p)
      obtain y' k' where p: "p = (y', k')" by (cases p)
      obtain e where e: "fst (fit_method F (trend st) X da y' method k' ?m) = Inl e"
        using assms by blast
      then obtain m' w where "fit_method F (trend st) X da y' method k' ?m = (Inl e, m', w)"
        by (cases "fit_method F (trend st) X da y' method k' ?m") auto
      then show ?thesis using Inr p by (simp add: BaseNrt_fit_stages [OF ok] Let_def)
    qed
  qed
qed

lemma fit_screen_isl:
  assumes "\<And>y sh mb. \<exists>e. fit_screen_outliers F X y sh mb so kw = Inl e"
  shows "\<exists>e. fst (BaseNrt_fit F st X da method so kw) = Inl e"
proof -
  consider (early) "\<exists>e m. BaseNrt_fit F st X da method so kw = (Inl e, m, [])"
    | (ok) "fit_input_ok st da"
    using fit_early_error_or_stages by blast
  then show ?thesis
  proof cases
    case early
    then show ?thesis by auto
  next
    case ok
    let ?m = "case mask st of None \<Rightarrow> replicate (fst (da_shape da) * snd (da_shape da)) 1
               | Some ws \<Rightarrow> ws"
    let ?mb = "map (\<lambda>w. w = 1) ?m"
    obtain e where "fit_screen_outliers F X (map (select_pixels ?mb) (da_values da))
                (da_shape da) ?mb so kw = Inl e"
      using assms by blast
    then show ?thesis by (simp add: BaseNrt_fit_stages [OF ok] Let_def)
  qed
qed

lemma invalid_configuration_isl:
  assumes "invalid_configuration (trend st) method so kw"
  shows "\<exists>e. fst (BaseNrt_fit F st X da method so kw) = Inl e"
proof -
  consider (lasso) "method = ''LASSO''"
    | (unknown) "method \<notin> set [''OLS'', ''RIRLS'', ''ROC'', ''CCDC-stable'', ''LASSO'']"
    | (screen) s where "so = Some s" "s \<noteq> []" "s \<noteq> ''Shewhart''" "s \<noteq> ''CCDC_RIRLS''"
    | (ccdc) "method = ''CCDC-stable''" "\<not> trend st"
    | (bands) "so = Some ''CCDC_RIRLS''" "kw ''green'' = None \<or> kw ''swir'' = None"
    using assms by (auto simp: invalid_configuration_def split: option.splits)
  then show ?thesis
  proof cases
    case lasso
    show ?thesis by (rule fit_method_isl) (simp add: lasso method_LASSO)
  next
    case unknown
    show ?thesis by (rule fit_method_isl) (simp add: method_unknown [OF unknown])
  next
    case screen
    show ?thesis
      by (rule fit_screen_isl) (simp add: screen(1) screen_unknown_name [OF screen(2-4)])
  next
    case ccdc
    show ?thesis by (rule fit_method_isl) (simp add: ccdc method_CCDC_no_trend)
  next
    case bands
    show ?thesis
      by (rule fit_screen_isl) (simp add: bands(1) screen_band_missing [OF bands(2)])
  qed
qed

lemma method_ROC_default_alpha:
  assumes "kw ''alpha'' = None"
  shows "fit_method F t X da y ''ROC'' kw m =
     (case fit_method F t X da y ''ROC'' (kw(''alpha'' \<mapsto> default_alpha)) m of
        (r, m', w) \<Rightarrow> (r, m', [alpha_warning]))"
    and "snd (snd (fit_method F t X da y ''ROC'' (kw(''alpha'' \<mapsto> default_alpha)) m)) = []"
  using assms
  by (auto simp: fit_method_def Let_def split: sum.splits prod.splits)

lemma screen_with_alpha:
  assumes "kw ''alpha'' = None" "no_screening so \<or> screening_ignores_alpha F"
  shows "fit_screen_outliers F X y sh mb so (kw(''alpha'' \<mapsto> a)) =
     (case fit_screen_outliers F X y sh mb so kw of
        Inl e \<Rightarrow> Inl e
      | Inr (y', k) \<Rightarrow> Inr (y', k(''alpha'' \<mapsto> a)))"
    and "fit_screen_outliers F X y sh mb so kw = Inr (y', k) \<Longrightarrow> k ''alpha'' = None"
proof -
  have tw: "(kw(''alpha'' \<mapsto> a))(''green'' := None, ''swir'' := None)
      = (kw(''green'' := None, ''swir'' := None))(''alpha'' \<mapsto> a)"
    by (rule ext) simp
  show "fit_screen_outliers F X y sh mb so (kw(''alpha'' \<mapsto> a)) =
     (case fit_screen_outliers F X y sh mb so kw of
        Inl e \<Rightarrow> Inl e
      | Inr (y', k) \<Rightarrow> Inr (y', k(''alpha'' \<mapsto> a)))"
  proof (cases "no_screening so")
    case True
    then show ?thesis by (simp add: screen_none)
  next
    case False
    then have ig: "screening_ignores_alpha F" using assms(2) by simp
    have sh: "shewhart F X y (kw(''alpha'' \<mapsto> a)) = shewhart F X y kw"
      using ig by (simp add: screening_ignores_alpha_def)
    have cc: "ccdc_rirls F X y g w ((kw(''green'' := None, ''swir'' := None))(''alpha'' \<mapsto> a))
        = ccdc_rirls F X y g w (kw(''green'' := None, ''swir'' := None))" for g w
      using ig by (simp add: screening_ignores_alpha_def)
    show ?thesis
      unfolding fit_screen_outliers_def Let_def tw
      by (simp add: sh cc split: option.splits sum.splits)
  qed
  show "fit_screen_outliers F X y sh mb so kw = Inr (y', k) \<Longrightarrow> k ''alpha'' = None"
    using assms(1)
    by (auto simp: fit_screen_outliers_def Let_def split: if_splits option.splits sum.splits)
qed

lemma fit_ROC_default_alpha:
  assumes "kw ''alpha'' = None" "no_screening so \<or> screening_ignores_alpha F"
  shows "fst (BaseNrt_fit F st X da ''ROC'' so kw)
           = fst (BaseNrt_fit F st X da ''ROC'' so (kw(''alpha'' \<mapsto> default_alpha)))"
    and "fst (snd (BaseNrt_fit F st X da ''ROC'' so kw))
           = fst (snd (BaseNrt_fit F st X da ''ROC'' so (kw(''alpha'' \<mapsto> default_alpha))))"
    and "fst (BaseNrt_fit F st X da ''ROC'' so kw) = Inr r \<Longrightarrow>
           snd (snd (BaseNrt_fit F st X da ''ROC'' so kw)) = [alpha_warning] \<and>
           snd (snd (BaseNrt_fit F st X da ''ROC'' so (kw(''alpha'' \<mapsto> default_alpha)))) = []"
proof -
  let ?kw = "kw(''alpha'' \<mapsto> default_alpha)"
  consider (early) "\<not> fit_input_ok st da" | (ok) "fit_input_ok st da" by blast
  then have "fst (BaseNrt_fit F st X da ''ROC'' so kw) = fst (BaseNrt_fit F st X da ''ROC'' so ?kw) \<and>
    fst (snd (BaseNrt_fit F st X da ''ROC'' so kw)) = fst (snd (BaseNrt_fit F st X da ''ROC'' so ?kw)) \<and>
    (\<forall>r. fst (BaseNrt_fit F st X da ''ROC'' so kw) = Inr r \<longrightarrow>
       snd (snd (BaseNrt_fit F st X da ''ROC'' so kw)) = [alpha_warning] \<and>
       snd (snd (BaseNrt_fit F st X da ''ROC'' so ?kw)) = [])"
  proof cases
    case early
    then show ?thesis
      by (cases "mask st") (auto simp: BaseNrt_fit_def fit_input_ok_def Let_def)
  next
    case ok
    let ?m = "case mask st of None \<Rightarrow> replicate (fst (da_shape da) * snd (da_shape da)) 1
               | Some ws \<Rightarrow> ws"
    let ?mb = "map (\<lambda>w. w = 1) ?m"
    let ?y = "map (select_pixels ?mb) (da_values da)"
    note sc = screen_with_alpha
      [where kw = kw and so = so and F = F and X = X and y = ?y and sh = "da_shape da"
         and mb = ?mb, OF assms]
    show ?thesis
    proof (cases "fit_screen_outliers F X ?y (da_shape da) ?mb so kw")
      case (Inl e)
      then show ?thesis
        by (simp add: BaseNrt_fit_stages [OF ok] Let_def sc(1))
    next
      case (Inr p)
      obtain y' k where p: "p = (y', k)" by (cases p)
      have k: "k ''alpha'' = None" using sc(2) Inr p by simp
      have s2: "fit_screen_outliers F X ?y (da_shape da) ?mb so ?kw = Inr (y', k(''alpha'' \<mapsto> default_alpha))"
        using Inr p by (simp add: sc(1))
      obtain r m' w where fm: "fit_method F (trend st) X da y' ''ROC'' (k(''alpha'' \<mapsto> default_alpha)) ?m = (r, m', w)"
        by (cases "fit_method F (trend st) X da y' ''ROC'' (k(''alpha'' \<mapsto> default_alpha)) ?m") auto
      note mr = method_ROC_default_alpha
        [where kw = k and F = F and t = "trend st" and X = X and da = da and y = y'
           and m = ?m, OF k]
      have w: "w = []" using mr(2) fm by simp
      have fm0: "fit_method F (trend st) X da y' ''ROC'' k ?m = (r, m', [alpha_warning])"
        using mr(1) fm by simp
      show ?thesis
        using Inr p s2 fm fm0 w
        by (simp add: BaseNrt_fit_stages [OF ok] Let_def split: sum.splits prod.splits)
    qed
  qed
  then show "fst (BaseNrt_fit F st X da ''ROC'' so kw)
           = fst (BaseNrt_fit F st X da ''ROC'' so (kw(''alpha'' \<mapsto> default_alpha)))"
    and "fst (snd (BaseNrt_fit F st X da ''ROC'' so kw))
           = fst (snd (BaseNrt_fit F st X da ''ROC'' so (kw(''alpha'' \<mapsto> default_alpha))))"
    and "fst (BaseNrt_fit F st X da ''ROC'' so kw) = Inr r \<Longrightarrow>
           snd (snd (BaseNrt_fit F st X da ''ROC'' so kw)) = [alpha_warning] \<and>
           snd (snd (BaseNrt_fit F st X da ''ROC'' so (kw(''alpha'' \<mapsto> default_alpha)))) = []"
    by blast+
qed

lemma length_select_pixels:
  "length row = length sel \<Longrightarrow> length (select_pixels sel row) = count_true sel"
proof (induction sel arbitrary: row)
  case Nil
  then show ?case by (simp add: select_pixels_def count_true_def)
next
  case (Cons b sel)
  then obtain v rest where "row = v # rest" by (cases row) auto
  with Cons show ?case by (auto simp: select_pixels_def count_true_def)
qed

lemma count_true_le: "count_true sel \<le> length sel"
  by (simp add: count_true_def)

lemma count_true_full: "count_true sel = length sel \<longleftrightarrow> (\<forall>b \<in> set sel. b)"
proof
  assume "count_true sel = length sel"
  then show "\<forall>b \<in> set sel. b"
    unfolding count_true_def by (metis length_filter_less less_irrefl)
next
  assume "\<forall>b \<in> set sel. b"
  then show "count_true sel = length sel" by (simp add: count_true_def)
qed

lemma count_monitored_full:
  "count_true (map (\<lambda>w. w = 1) m) = length m \<longleftrightarrow> (\<forall>i<length m. m ! i = (1 :: 8 word))"
  using count_true_full [of "map (\<lambda>w. w = 1) m"] by (auto simp: all_set_conv_all_nth)

lemma screen_keeps_ncols:
  assumes "fitters_keep_shape F" "fit_screen_outliers F X y sh mb so kw = Inr (y', k)"
  shows "ncols y' = ncols y"
proof -
  have s: "shewhart F X y kw = Inr z \<Longrightarrow> ncols z = ncols y" for z
    using assms(1) by (simp add: fitters_keep_shape_def)
  have c: "ccdc_rirls F X y g w kk = Inr z \<Longrightarrow> ncols z = ncols y" for g w kk z
    using assms(1) by (simp add: fitters_keep_shape_def)
  show ?thesis
    using assms(2) s c
    by (auto simp: fit_screen_outliers_def Let_def split: if_splits option.splits sum.splits)
qed

lemma method_reshape_fails:
  assumes "method = ''ROC'' \<or> method = ''CCDC-stable''" "fitters_keep_shape F"
    and "ncols y \<noteq> fst (da_shape da) * snd (da_shape da)"
  shows "\<exists>e. fst (fit_method F t X da y method kw m) = Inl e"
proof -
  have r: "roc_stable_fit F X y d a c = Inr (b, rs, s) \<Longrightarrow>
      mark_unstable s (da_shape da) m = Inl (ValueError ''cannot reshape array'')" for d a c b rs s
    using assms(2,3) by (auto simp: fitters_keep_shape_def mark_unstable_def)
  have c: "ccdc_stable_fit F X y d kk = Inr (b, rs, s) \<Longrightarrow>
      mark_unstable s (da_shape da) m = Inl (ValueError ''cannot reshape array'')" for d kk b rs s
    using assms(2,3) by (auto simp: fitters_keep_shape_def mark_unstable_def)
  from assms(1) show ?thesis
  proof
    assume "method = ''ROC''"
    then show ?thesis
      using r by (auto simp: fit_method_def Let_def split: option.splits sum.splits prod.splits)
  next
    assume "method = ''CCDC-stable''"
    then show ?thesis
      using c by (auto simp: fit_method_def Let_def split: option.splits sum.splits prod.splits)
  qed
qed

lemma ncols_selected:
  assumes "cube_ok da" "length mb = fst (da_shape da) * snd (da_shape da)"
  shows "ncols (map (select_pixels mb) (da_values da)) = count_true mb"
proof -
  obtain g gs where v: "da_values da = g # gs"
    using assms(1) by (cases "da_values da") (auto simp: cube_ok_def)
  have "length g = length mb" using assms v by (simp add: cube_ok_def)
  then show ?thesis by (simp add: v ncols_def length_select_pixels)
qed

lemma fit_stable_fails_on_partial_mask:
  assumes "method = ''ROC'' \<or> method = ''CCDC-stable''"
    and "mask st = Some m" "length m = fst (da_shape da) * snd (da_shape da)"
    and "cube_ok da" "fitters_keep_shape F" "\<exists>i<length m. m ! i \<noteq> 1"
  shows "\<exists>e. fst (BaseNrt_fit F st X da method so kw) = Inl e"
proof -
  let ?mb = "map (\<lambda>w. w = 1) m"
  let ?y = "map (select_pixels ?mb) (da_values da)"
  have ok: "fit_input_ok st da" using assms(2,3) by (simp add: fit_input_ok_def)
  have "count_true ?mb \<noteq> length m" using assms(6) count_monitored_full [of m] by auto
  then have ny: "ncols ?y \<noteq> fst (da_shape da) * snd (da_shape da)"
    using ncols_selected [OF assms(4), of ?mb] assms(3) by simp
  show ?thesis
  proof (cases "fit_screen_outliers F X ?y (da_shape da) ?mb so kw")
    case (Inl e)
    then show ?thesis using assms(2) by (simp add: BaseNrt_fit_stages [OF ok] Let_def)
  next
    case (Inr p)
    obtain y' k where p: "p = (y', k)" by (cases p)
    have "ncols y' = ncols ?y" using screen_keeps_ncols [OF assms(5)] Inr p by blast
    then have "ncols y' \<noteq> fst (da_shape da) * snd (da_shape da)" using ny by simp
    from method_reshape_fails [OF assms(1,5) this]
    obtain e where "fst (fit_method F (trend st) X da y' method k m) = Inl e" by blast
    then obtain m' w where "fit_method F (trend st) X da y' method k m = (Inl e, m', w)"
      by (cases "fit_method F (trend st) X da y' method k m") auto
    then show ?thesis
      using Inr p assms(2) by (simp add: BaseNrt_fit_stages [OF ok] Let_def)
  qed
qed

lemmas fit_eval =
  BaseNrt_fit_def fit_screen_outliers_def fit_method_def mark_unstable_def
  assign_selected_def select_pixels_def count_true_def ncols_def np_where_def
  stub_fitters_def zero_fit_def stub_regressors_def example_cube_def example_state_def
  default_alpha_def to_days_def Let_def numeral_2_eq_2

lemma example_fit_input_ok: "fit_input_ok example_state example_cube"
  by (simp add: fit_input_ok_def example_state_def example_cube_def)

lemma stub_fitters_keep_shape: "fitters_keep_shape stub_fitters"
  by (simp add: fitters_keep_shape_def stub_fitters_def)

lemma example_cube_ok: "cube_ok example_cube"
  by (simp add: cube_ok_def example_cube_def)

lemma stub_fit_ROC_no_mask:
  "BaseNrt_fit stub_fitters (example_state\<lparr>mask := None\<rparr>) [[Fin 1]] example_cube ''ROC'' None
     Map.empty
   = (Inr ([[Fin 0, Fin 0]], [[Fin 0, Fin 0]]), Some [1, 1], [alpha_warning])"
  by (simp add: fit_eval)

lemma stub_fit_ROC_partial_mask:
  "fst (BaseNrt_fit stub_fitters example_state [[Fin 1]] example_cube ''ROC'' None Map.empty)
   = Inl (ValueError ''cannot reshape array'')"
  by (simp add: fit_eval)

section \<open>The claims\<close>

text \<open>
  C1. In every monitoring step of the CUSUM monitor, the break detector, run on the
  instance as the process update left it, marks a pixel exactly when the absolute value of
  its process exceeds its boundary (a comparison that is false on NaN); on finite values that
  is \<open>b < \<bar>p\<bar>\<close>. The step then sets the mask to 3 at the valid pixels so marked.
\<close>

theorem CuSum_break_iff_exceeds_boundary:
  assumes "grid_shaped st k" "length array = k" "BaseNrt_regressors br st date \<noteq> []"
    and "i < k"
  shows "let st' = CuSum_update_process st (monitor_residuals br st array date)
                     (monitor_is_valid st array);
             is_break = CuSum_detect_break st'
         in (is_break ! i \<longleftrightarrow> fl_gt (fl_abs (process st' ! i)) (as_float (boundary st') ! i)) \<and>
            (\<forall>p b. process st' ! i = Fin p \<and> as_float (boundary st') ! i = Fin b \<longrightarrow>
               (is_break ! i \<longleftrightarrow> b < \<bar>p\<bar>)) \<and>
            (the (mask (CuSum_monitor br st array date)) ! i = 3 \<longleftrightarrow>
               monitor_is_valid st array ! i \<and> is_break ! i \<or> the (mask st) ! i = 3)"
proof -
  let ?v = "monitor_is_valid st array"
  let ?r = "monitor_residuals br st array date"
  let ?st = "CuSum_update_process st ?r ?v"
  have lv: "length ?v = k" using assms by (simp add: length_monitor_is_valid)
  have lr: "length ?r = k" using assms by (simp add: length_monitor_residuals)
  note L = update_process_lengths [OF assms(1) lr lv]
  have brk: "CuSum_detect_break ?st ! i
      = fl_gt (fl_abs (process ?st ! i)) (as_float (boundary ?st) ! i)"
    using L assms(4) by (simp add: nth_detect_break)
  have fin: "CuSum_detect_break ?st ! i \<longleftrightarrow> b < \<bar>p\<bar>"
    if "process ?st ! i = Fin p \<and> as_float (boundary ?st) ! i = Fin b" for p b
    using that brk by (simp add: fl_gt_def)
  obtain m where m: "mask st = Some m"
    using assms(1) by (auto simp: grid_shaped_def split: option.splits)
  obtain m' where m': "mask (CuSum_monitor br st array date) = Some m'"
    "m' ! i = (if ?v ! i \<and> CuSum_detect_break ?st ! i then 3 else m ! i)"
    using monitor_mask_nth [OF assms m] by blast
  have msk: "the (mask (CuSum_monitor br st array date)) ! i = 3 \<longleftrightarrow>
      ?v ! i \<and> CuSum_detect_break ?st ! i \<or> the (mask st) ! i = 3"
    using m m' by auto
  show ?thesis
    unfolding Let_def using brk fin msk by blast
qed

theorem CuSum_break_iff_exceeds_boundary_witness:
  "grid_shaped example_state 2 \<and> length [Fin 10, Fin 10] = 2 \<and>
   BaseNrt_regressors stub_regressors example_state 0 \<noteq> [] \<and> (0::nat) < 2 \<and>
   (let st' = CuSum_update_process example_state
                (monitor_residuals stub_regressors example_state [Fin 10, Fin 10] 0)
                (monitor_is_valid example_state [Fin 10, Fin 10]);
        is_break = CuSum_detect_break st'
    in (is_break ! 0 \<longleftrightarrow> fl_gt (fl_abs (process st' ! 0)) (as_float (boundary st') ! 0)) \<and>
       (\<forall>p b. process st' ! 0 = Fin p \<and> as_float (boundary st') ! 0 = Fin b \<longrightarrow>
          (is_break ! 0 \<longleftrightarrow> b < \<bar>p\<bar>)) \<and>
       (the (mask (CuSum_monitor stub_regressors example_state [Fin 10, Fin 10] 0)) ! 0 = 3 \<longleftrightarrow>
          monitor_is_valid example_state [Fin 10, Fin 10] ! 0 \<and> is_break ! 0 \<or>
          the (mask example_state) ! 0 = 3))"
proof -
  have h2: "length [Fin 10, Fin 10] = 2" by simp
  have h4: "(0::nat) < 2" by simp
  note w = CuSum_break_iff_exceeds_boundary
    [OF example_state_shaped h2 stub_regressors_row h4, of 0]
  show ?thesis
    by (intro conjI example_state_shaped h2 stub_regressors_row h4 w)
qed

text \<open>
  C2. A confirmed break is terminal: from an instance whose mask is 3 at a pixel, any
  sequence of monitoring steps, whatever the acquisitions and dates, leaves the mask at 3
  there and the pixel's process, boundary, count, sigma, history size and coefficients as
  they were.
\<close>

theorem confirmed_break_is_terminal:
  assumes "grid_shaped st k"
    and "list_all (\<lambda>(array, date). length array = k \<and> BaseNrt_regressors br st date \<noteq> []) obs"
    and "i < k" "mask st = Some m" "m ! i = 3"
  shows "let st' = CuSum_monitor_all br st obs
         in the (mask st') ! i = 3 \<and>
            process st' ! i = process st ! i \<and>
            as_float (boundary st') ! i = as_float (boundary st) ! i \<and>
            n st' ! i = n st ! i \<and>
            sigma st' = sigma st \<and> histsize st' = histsize st \<and> beta st' = beta st"
  using monitor_all_terminal [OF assms] unfolding Let_def by auto

theorem confirmed_break_is_terminal_witness:
  "grid_shaped example_state 2 \<and>
   list_all (\<lambda>(array, date). length array = 2 \<and>
       BaseNrt_regressors stub_regressors example_state date \<noteq> [])
     [([Fin 10, Fin 10], 0), ([NaN, Fin 3], 1)] \<and>
   (1::nat) < 2 \<and> mask example_state = Some [1, 3] \<and> [1, 3 :: 8 word] ! 1 = 3 \<and>
   (let st' = CuSum_monitor_all stub_regressors example_state
                [([Fin 10, Fin 10], 0), ([NaN, Fin 3], 1)]
    in the (mask st') ! 1 = 3 \<and>
       process st' ! 1 = process example_state ! 1 \<and>
       as_float (boundary st') ! 1 = as_float (boundary example_state) ! 1 \<and>
       n st' ! 1 = n example_state ! 1 \<and>
       sigma st' = sigma example_state \<and> histsize st' = histsize example_state \<and>
       beta st' = beta example_state)"
proof -
  have h2: "list_all (\<lambda>(array, date). length array = 2 \<and>
       BaseNrt_regressors stub_regressors example_state date \<noteq> [])
     [([Fin 10, Fin 10], 0), ([NaN, Fin 3], 1)]"
    by (simp add: stub_regressors_row)
  have h3: "(1::nat) < 2" by simp
  have h4: "mask example_state = Some [1, 3]" by (simp add: example_state_def)
  have h5: "[1, 3 :: 8 word] ! 1 = 3" by simp
  note w = confirmed_break_is_terminal [OF example_state_shaped h2 h3 h4 h5]
  show ?thesis
    by (intro conjI example_state_shaped h2 h3 h4 h5 w)
qed

text \<open>
  C3. Whenever \<^verbatim>\<open>CuSum.fit\<close> completes, the boundary it leaves is an array of 16-bit
  unsigned integers, in which no entry is NaN: \<^verbatim>\<open>np.isnan\<close> is false at every pixel, and
  every entry is the integer the conversion gives for NaN, which is 0.
\<close>

theorem CuSum_fit_boundary_not_nan:
  assumes "CuSum_fit F br st da method alpha so kw = (None, st', warned)"
  shows "np_isnan (boundary st') = replicate (fst (da_shape da) * snd (da_shape da)) False \<and>
         boundary st' = UInt16 (replicate (fst (da_shape da) * snd (da_shape da)) 0)"
  using CuSum_fit_boundary [OF assms] by (simp add: map_replicate_const)

theorem CuSum_fit_boundary_not_nan_witness:
  "fst (CuSum_fit stub_fitters stub_regressors (example_state\<lparr>mask := None\<rparr>) example_cube
          ''ROC'' default_alpha None Map.empty) = None \<and>
   np_isnan (boundary (fst (snd (CuSum_fit stub_fitters stub_regressors
       (example_state\<lparr>mask := None\<rparr>) example_cube ''ROC'' default_alpha None Map.empty))))
     = [False, False] \<and>
   boundary (fst (snd (CuSum_fit stub_fitters stub_regressors
       (example_state\<lparr>mask := None\<rparr>) example_cube ''ROC'' default_alpha None Map.empty)))
     = UInt16 [0, 0]"
proof -
  let ?r = "CuSum_fit stub_fitters stub_regressors (example_state\<lparr>mask := None\<rparr>) example_cube
          ''ROC'' default_alpha None Map.empty"
  have X: "stub_regressors (da_time example_cube) t h = [[Fin 1]]" for t h
    by (simp add: stub_regressors_def example_cube_def)
  have f: "BaseNrt_fit stub_fitters
      (example_state\<lparr>mask := None, x_coords := da_x example_cube, y_coords := da_y example_cube\<rparr>)
      [[Fin 1]] example_cube ''ROC'' None (Map.empty(''alpha'' \<mapsto> default_alpha))
    = (Inr ([[Fin 0, Fin 0]], [[Fin 0, Fin 0]]), Some [1, 1], [])"
    by (simp add: fit_eval)
  have e: "fst ?r = None"
    by (simp add: CuSum_fit_def Let_def X f CuSum_fit_state_def split: prod.splits)
  then have "?r = (None, fst (snd ?r), snd (snd ?r))"
    by (metis prod.collapse)
  from CuSum_fit_boundary_not_nan [OF this]
  have "np_isnan (boundary (fst (snd ?r))) = [False, False] \<and>
        boundary (fst (snd ?r)) = UInt16 [0, 0]"
    by (simp add: example_cube_def numeral_2_eq_2)
  with e show ?thesis by blast
qed

text \<open>
  C4. The default break detector takes the floor of the quotient of process by boundary
  and converts it to an unsigned byte. For a finite process and a finite nonzero boundary
  whose quotient lies in \<open>[0, 256)\<close>, where that conversion is exact, the pixel is flagged
  exactly when the truncated quotient is not zero, that is, when the quotient is at least
  1, and the byte is the floor of the quotient.
\<close>

theorem default_detect_break_in_range:
  assumes "i < length (process st)" "i < length (as_float (boundary st))"
    and "process st ! i = Fin p" "as_float (boundary st) ! i = Fin b"
    and "b \<noteq> 0" "0 \<le> p / b" "p / b < 256"
  shows "(BaseNrt_detect_break_truth st ! i \<longleftrightarrow> spec_truncated_quotient_nonzero p b) \<and>
         (BaseNrt_detect_break_truth st ! i \<longleftrightarrow> 1 \<le> p / b) \<and>
         uint (BaseNrt_detect_break st ! i) = \<lfloor>p / b\<rfloor>"
proof -
  let ?z = "\<lfloor>p / b\<rfloor>"
  have z: "0 \<le> ?z" "?z < 256" using assms(6,7) by (simp_all add: floor_less_iff)
  have d: "BaseNrt_detect_break st ! i = float_to_uint (Fin (of_int ?z))"
    using assms(1-5) by (simp add: nth_BaseNrt_detect_break)
  have t: "BaseNrt_detect_break_truth st ! i \<longleftrightarrow> ?z \<noteq> 0"
    using assms(1,2) float_to_uint8_in_range(3) [OF z]
    by (simp add: BaseNrt_detect_break_truth_def BaseNrt_detect_break_def d [symmetric]
        nth_BaseNrt_detect_break)
  have s: "spec_truncated_quotient_nonzero p b \<longleftrightarrow> ?z \<noteq> 0"
    using assms(6) by (simp add: spec_truncated_quotient_nonzero_def trunc_nonneg)
  have o: "?z \<noteq> 0 \<longleftrightarrow> 1 \<le> p / b"
  proof -
    have "1 \<le> ?z \<longleftrightarrow> 1 \<le> p / b" by (simp add: le_floor_iff)
    then show ?thesis using z(1) by linarith
  qed
  have u: "uint (BaseNrt_detect_break st ! i) = ?z"
    using float_to_uint8_in_range(2) [OF z] by (simp add: d)
  show ?thesis using t s o u by blast
qed

theorem default_detect_break_in_range_witness:
  "(1::nat) < length (process example_state) \<and>
   1 < length (as_float (boundary example_state)) \<and>
   process example_state ! 1 = Fin 5 \<and> as_float (boundary example_state) ! 1 = Fin 1 \<and>
   (1::real) \<noteq> 0 \<and> (0::real) \<le> 5 / 1 \<and> (5::real) / 1 < 256 \<and>
   ((BaseNrt_detect_break_truth example_state ! 1 \<longleftrightarrow> spec_truncated_quotient_nonzero 5 1) \<and>
    (BaseNrt_detect_break_truth example_state ! 1 \<longleftrightarrow> (1::real) \<le> 5 / 1) \<and>
    uint (BaseNrt_detect_break example_state ! 1) = \<lfloor>(5::real) / 1\<rfloor>)"
proof -
  have h1: "(1::nat) < length (process example_state)" by (simp add: example_state_def)
  have h2: "1 < length (as_float (boundary example_state))" by (simp add: example_state_def)
  have h3: "process example_state ! 1 = Fin 5" by (simp add: example_state_def)
  have h4: "as_float (boundary example_state) ! 1 = Fin 1" by (simp add: example_state_def)
  have h5: "(1::real) \<noteq> 0" by simp
  have h6: "(0::real) \<le> 5 / 1" by simp
  have h7: "(5::real) / 1 < 256" by simp
  note w = default_detect_break_in_range [OF h1 h2 h3 h4 h5 h6 h7]
  show ?thesis
    by (intro conjI h1 h2 h3 h4 h5 h6 h7 w [THEN conjunct1] w [THEN conjunct2, THEN conjunct1]
        w [THEN conjunct2, THEN conjunct2])
qed

text \<open>
  Outside that range the detector and the truncated quotient part: the quotient \<open>-1/2\<close>
  truncates to 0 but its floor \<open>-1\<close> gives a nonzero byte, and the quotient \<open>-256\<close>
  does not truncate to 0 but its floor gives the byte 0.
\<close>

theorem default_detect_break_counterexample:
  "process (example_state\<lparr>process := [Fin (- 1 / 2), Fin (- 256)]\<rparr>) ! 0 = Fin (- 1 / 2) \<and>
   as_float (boundary example_state) ! 0 = Fin 1 \<and>
   BaseNrt_detect_break_truth (example_state\<lparr>process := [Fin (- 1 / 2), Fin (- 256)]\<rparr>) ! 0 \<and>
   \<not> spec_truncated_quotient_nonzero (- 1 / 2) 1 \<and>
   \<not> BaseNrt_detect_break_truth (example_state\<lparr>process := [Fin (- 1 / 2), Fin (- 256)]\<rparr>) ! 1 \<and>
   spec_truncated_quotient_nonzero (- 256) 1"
proof -
  have c1: "\<lceil>- 1 :: real\<rceil> = - 1"
    using ceiling_of_int [of "- 1", where ?'a = real] by simp
  have c2: "\<lceil>- (1 / 2) :: real\<rceil> = 0" by (simp add: ceiling_eq_iff)
  show ?thesis
    by (simp add: example_state_def BaseNrt_detect_break_truth_def BaseNrt_detect_break_def
        float_to_uint_def trunc_toward_zero_def spec_truncated_quotient_nonzero_def c1 c2)
qed

text \<open>
  C5. With the critical value and the history size fixed (the critical value finite, the
  history size positive), the boundary the process update computes does not decrease as the
  observation count grows beyond the history size. On these inputs every intermediate
  value is finite and the boundary is the square root of \<open>boundary_sq\<close> at the ratio of
  the counts.
\<close>

theorem boundary_nondecreasing:
  assumes "0 < unat h" "unat h < unat k" "unat k \<le> unat k'"
  shows "fl_le (boundary_value (Fin c) k h) (boundary_value (Fin c) k' h)"
proof -
  obtain kn kn' hn where d: "unat k = kn" "unat k' = kn'" "unat h = hn" by simp
  have o: "0 < hn" "hn < kn" "kn \<le> kn'" "hn < kn'" using assms d by simp_all
  have "real kn / real hn \<le> real kn' / real hn"
    using o by (simp add: divide_right_mono)
  moreover have "1 < real kn / real hn" using o by simp
  ultimately have "boundary_sq c (real kn / real hn) \<le> boundary_sq c (real kn' / real hn)"
    by (intro boundary_sq_mono)
  then show ?thesis
    by (simp add: boundary_value_finite [OF d(1,3) o(1,2)]
        boundary_value_finite [OF d(2,3) o(1,4)])
qed

theorem boundary_nondecreasing_witness:
  "0 < unat (4 :: 16 word) \<and> unat (4 :: 16 word) < unat (5 :: 16 word) \<and>
   unat (5 :: 16 word) \<le> unat (6 :: 16 word) \<and>
   fl_le (boundary_value (Fin 1) 5 4) (boundary_value (Fin 1) 6 4)"
proof -
  have h1: "0 < unat (4 :: 16 word)" by simp
  have h2: "unat (4 :: 16 word) < unat (5 :: 16 word)" by simp
  have h3: "unat (5 :: 16 word) \<le> unat (6 :: 16 word)" by simp
  show ?thesis
    by (intro conjI h1 h2 h3 boundary_nondecreasing [OF h1 h2 h3])
qed

text \<open>
  C6. A monitoring step of the CUSUM monitor takes a pixel as valid exactly when its mask
  is 1 and the new observation is finite, and at every other pixel the observation count,
  the process and the boundary keep their values (the boundary read as a float: the first
  update turns the integer array of the fit into floats, which changes no value). The same
  holds of the process update on any validity array.
\<close>

theorem update_touches_valid_pixels_only:
  assumes "grid_shaped st k" "length array = k" "BaseNrt_regressors br st date \<noteq> []"
    and "i < k" "mask st = Some m"
  shows "(monitor_is_valid st array ! i \<longleftrightarrow> m ! i = 1 \<and> isfinite (array ! i)) \<and>
         (\<not> (m ! i = 1 \<and> isfinite (array ! i)) \<longrightarrow>
            n (CuSum_monitor br st array date) ! i = n st ! i \<and>
            process (CuSum_monitor br st array date) ! i = process st ! i \<and>
            as_float (boundary (CuSum_monitor br st array date)) ! i
              = as_float (boundary st) ! i) \<and>
         (\<forall>r v. length r = k \<and> length v = k \<and> \<not> v ! i \<longrightarrow>
            n (CuSum_update_process st r v) ! i = n st ! i \<and>
            process (CuSum_update_process st r v) ! i = process st ! i \<and>
            as_float (boundary (CuSum_update_process st r v)) ! i = as_float (boundary st) ! i)"
proof -
  have lm: "length m = length array" using assms(1,2,5) by (simp add: grid_shaped_def)
  have v: "monitor_is_valid st array ! i \<longleftrightarrow> m ! i = 1 \<and> isfinite (array ! i)"
    using assms(2,4) by (simp add: nth_monitor_is_valid [OF assms(5) lm])
  have step: "n (CuSum_monitor br st array date) ! i = n st ! i \<and>
      process (CuSum_monitor br st array date) ! i = process st ! i \<and>
      as_float (boundary (CuSum_monitor br st array date)) ! i = as_float (boundary st) ! i"
    if "\<not> (m ! i = 1 \<and> isfinite (array ! i))"
    using monitor_frame [OF assms(1-4)] that v by simp
  have upd: "n (CuSum_update_process st r v) ! i = n st ! i \<and>
      process (CuSum_update_process st r v) ! i = process st ! i \<and>
      as_float (boundary (CuSum_update_process st r v)) ! i = as_float (boundary st) ! i"
    if "length r = k \<and> length v = k \<and> \<not> v ! i" for r v
    using update_process_frame [OF assms(1) _ _ assms(4), of r v] that by simp
  show ?thesis using v step upd by blast
qed

theorem update_touches_valid_pixels_only_witness:
  "grid_shaped example_state 2 \<and> length [NaN, Fin 3] = 2 \<and>
   BaseNrt_regressors stub_regressors example_state 0 \<noteq> [] \<and> (0::nat) < 2 \<and>
   mask example_state = Some [1, 3] \<and>
   \<not> ([1, 3 :: 8 word] ! 0 = 1 \<and> isfinite ([NaN, Fin 3] ! 0)) \<and>
   n (CuSum_monitor stub_regressors example_state [NaN, Fin 3] 0) ! 0 = n example_state ! 0 \<and>
   process (CuSum_monitor stub_regressors example_state [NaN, Fin 3] 0) ! 0
     = process example_state ! 0 \<and>
   as_float (boundary (CuSum_monitor stub_regressors example_state [NaN, Fin 3] 0)) ! 0
     = as_float (boundary example_state) ! 0"
proof -
  have h2: "length [NaN, Fin 3] = 2" by simp
  have h4: "(0::nat) < 2" by simp
  have h5: "mask example_state = Some [1, 3]" by (simp add: example_state_def)
  have h6: "\<not> ([1, 3 :: 8 word] ! 0 = 1 \<and> isfinite ([NaN, Fin 3] ! 0))" by simp
  note w = update_touches_valid_pixels_only
    [OF example_state_shaped h2 stub_regressors_row h4 h5, of 0]
  show ?thesis
    using w h6 by (intro conjI example_state_shaped h2 stub_regressors_row h4 h5 h6) blast+
qed

text \<open>
  C7. \<^verbatim>\<open>_fit\<close> raises for every invalid configuration, and never returns a fit for one:
  the unimplemented method, an unknown method name, an unknown non-empty screening name,
  the CCDC fit without a trend, the CCDC screening without one of its bands. With a cube
  and a mask that fit together, an unknown non-empty screening name and a missing green
  band raise the configuration error whatever the method; and where no screening is asked
  for, \<^verbatim>\<open>LASSO\<close> raises the not-implemented error, an unknown method name and the CCDC
  fit without a trend the configuration error.
\<close>

theorem invalid_configuration_raises:
  assumes "fit_input_ok st da"
  shows "(invalid_configuration (trend st) method so kw \<longrightarrow>
            (\<exists>e. fst (BaseNrt_fit F st X da method so kw) = Inl e)) \<and>
         (\<forall>s. s \<noteq> [] \<and> s \<noteq> ''Shewhart'' \<and> s \<noteq> ''CCDC_RIRLS'' \<longrightarrow>
            fst (BaseNrt_fit F st X da method (Some s) kw)
              = Inl (ValueError ''Unknown screen_outliers'')) \<and>
         (kw ''green'' = None \<longrightarrow>
            fst (BaseNrt_fit F st X da method (Some ''CCDC_RIRLS'') kw)
              = Inl (ValueError green_swir_required)) \<and>
         (no_screening so \<longrightarrow>
            fst (BaseNrt_fit F st X da ''LASSO'' so kw)
              = Inl (NotImplementedError ''Method not yet implemented'')) \<and>
         (no_screening so \<and>
          method \<notin> set [''OLS'', ''RIRLS'', ''ROC'', ''CCDC-stable'', ''LASSO''] \<longrightarrow>
            fst (BaseNrt_fit F st X da method so kw) = Inl (ValueError ''Unknown method'')) \<and>
         (no_screening so \<and> \<not> trend st \<longrightarrow>
            fst (BaseNrt_fit F st X da ''CCDC-stable'' so kw)
              = Inl (ValueError ccdc_requires_trend))"
proof (intro conjI impI allI)
  assume "invalid_configuration (trend st) method so kw"
  then show "\<exists>e. fst (BaseNrt_fit F st X da method so kw) = Inl e"
    by (rule invalid_configuration_isl)
next
  fix s assume "s \<noteq> [] \<and> s \<noteq> ''Shewhart'' \<and> s \<noteq> ''CCDC_RIRLS''"
  then show "fst (BaseNrt_fit F st X da method (Some s) kw)
      = Inl (ValueError ''Unknown screen_outliers'')"
    by (intro fit_screen_error [OF assms] screen_unknown_name) simp_all
next
  assume "kw ''green'' = None"
  then show "fst (BaseNrt_fit F st X da method (Some ''CCDC_RIRLS'') kw)
      = Inl (ValueError green_swir_required)"
    by (intro fit_screen_error [OF assms] screen_green_missing)
next
  assume "no_screening so"
  then show "fst (BaseNrt_fit F st X da ''LASSO'' so kw)
      = Inl (NotImplementedError ''Method not yet implemented'')"
    by (intro fit_method_error [OF assms] method_LASSO)
next
  assume "no_screening so \<and>
    method \<notin> set [''OLS'', ''RIRLS'', ''ROC'', ''CCDC-stable'', ''LASSO'']"
  then show "fst (BaseNrt_fit F st X da method so kw) = Inl (ValueError ''Unknown method'')"
    by (intro fit_method_error [OF assms] method_unknown) simp_all
next
  assume a: "no_screening so \<and> \<not> trend st"
  then have "trend st = False" by simp
  then show "fst (BaseNrt_fit F st X da ''CCDC-stable'' so kw)
      = Inl (ValueError ccdc_requires_trend)"
    using a by (intro fit_method_error [OF assms]) (simp_all add: method_CCDC_no_trend)
qed

theorem invalid_configuration_raises_witness:
  "fit_input_ok example_state example_cube \<and>
   invalid_configuration (trend example_state) ''LASSO'' None Map.empty \<and>
   no_screening None \<and>
   (\<exists>e. fst (BaseNrt_fit stub_fitters example_state [[Fin 1]] example_cube ''LASSO'' None
            Map.empty) = Inl e) \<and>
   fst (BaseNrt_fit stub_fitters example_state [[Fin 1]] example_cube ''LASSO'' None Map.empty)
     = Inl (NotImplementedError ''Method not yet implemented'') \<and>
   fst (BaseNrt_fit stub_fitters example_state [[Fin 1]] example_cube ''LASSO'' (Some ''median'')
          Map.empty)
     = Inl (ValueError ''Unknown screen_outliers'') \<and>
   fst (BaseNrt_fit stub_fitters example_state [[Fin 1]] example_cube ''LASSO''
          (Some ''CCDC_RIRLS'') Map.empty)
     = Inl (ValueError green_swir_required)"
proof -
  have i: "invalid_configuration (trend example_state) ''LASSO'' None Map.empty"
    by (simp add: invalid_configuration_def)
  have n: "no_screening None" by (simp add: no_screening_def)
  have s: "''median'' \<noteq> [] \<and> ''median'' \<noteq> ''Shewhart'' \<and> ''median'' \<noteq> ''CCDC_RIRLS''"
    by simp
  have g: "(Map.empty :: kwargs) ''green'' = None" by simp
  note w = invalid_configuration_raises
    [OF example_fit_input_ok, of "''LASSO''" None Map.empty stub_fitters "[[Fin 1]]"]
  show ?thesis
    using w i n s g by (intro conjI example_fit_input_ok i n) blast+
qed

text \<open>
  The empty screening name is neither of the two known names, and \<^verbatim>\<open>_fit\<close> takes it as
  no screening and returns a fit. And with an unknown screening name, the method
  \<^verbatim>\<open>LASSO\<close> raises the configuration error of the screening, which is checked first, not
  the not-implemented error.
\<close>

theorem invalid_configuration_counterexample:
  "[] \<noteq> ''Shewhart'' \<and> [] \<noteq> ''CCDC_RIRLS'' \<and>
   BaseNrt_fit stub_fitters example_state [[Fin 1]] example_cube ''OLS'' (Some []) Map.empty
     = (Inr ([[Fin 0, Fin 0]], [[Fin 0, Fin 0]]), Some [1, 3], []) \<and>
   fst (BaseNrt_fit stub_fitters example_state [[Fin 1]] example_cube ''LASSO'' (Some ''median'')
          Map.empty)
     = Inl (ValueError ''Unknown screen_outliers'')"
  by (simp add: fit_eval)

text \<open>
  C8. \<^verbatim>\<open>_fit\<close> with method \<^verbatim>\<open>ROC\<close> and no \<^verbatim>\<open>alpha\<close> among the keyword arguments returns
  or raises exactly what it does when \<^verbatim>\<open>alpha = 0.05\<close> is passed, and leaves the same
  mask: the missing parameter is no cause of failure. When the call returns, it has given
  the one warning about \<^verbatim>\<open>alpha\<close>, and the call with \<^verbatim>\<open>alpha\<close> passed has given none.
  (Where a screening is asked for, its routine receives the keyword arguments as well, and
  is taken not to read \<^verbatim>\<open>alpha\<close>.)
\<close>

theorem ROC_without_alpha_uses_default:
  assumes "kw ''alpha'' = None" "no_screening so \<or> screening_ignores_alpha F"
  shows "default_alpha = KFloat (Fin (5 / 100)) \<and>
         fst (BaseNrt_fit F st X da ''ROC'' so kw)
           = fst (BaseNrt_fit F st X da ''ROC'' so (kw(''alpha'' \<mapsto> default_alpha))) \<and>
         fst (snd (BaseNrt_fit F st X da ''ROC'' so kw))
           = fst (snd (BaseNrt_fit F st X da ''ROC'' so (kw(''alpha'' \<mapsto> default_alpha)))) \<and>
         (\<forall>r. fst (BaseNrt_fit F st X da ''ROC'' so kw) = Inr r \<longrightarrow>
            snd (snd (BaseNrt_fit F st X da ''ROC'' so kw)) = [alpha_warning] \<and>
            snd (snd (BaseNrt_fit F st X da ''ROC'' so (kw(''alpha'' \<mapsto> default_alpha)))) = [])"
proof -
  note d = fit_ROC_default_alpha
    [where kw = kw and so = so and F = F and st = st and X = X and da = da, OF assms]
  have "default_alpha = KFloat (Fin (5 / 100))" by (simp add: default_alpha_def)
  then show ?thesis using d by blast
qed

theorem ROC_without_alpha_uses_default_witness:
  "(Map.empty :: kwargs) ''alpha'' = None \<and> no_screening None \<and>
   fst (BaseNrt_fit stub_fitters (example_state\<lparr>mask := None\<rparr>) [[Fin 1]] example_cube ''ROC''
          None Map.empty)
     = fst (BaseNrt_fit stub_fitters (example_state\<lparr>mask := None\<rparr>) [[Fin 1]] example_cube
             ''ROC'' None (Map.empty(''alpha'' \<mapsto> default_alpha))) \<and>
   fst (BaseNrt_fit stub_fitters (example_state\<lparr>mask := None\<rparr>) [[Fin 1]] example_cube ''ROC''
          None Map.empty)
     = Inr ([[Fin 0, Fin 0]], [[Fin 0, Fin 0]]) \<and>
   snd (snd (BaseNrt_fit stub_fitters (example_state\<lparr>mask := None\<rparr>) [[Fin 1]] example_cube
               ''ROC'' None Map.empty))
     = [alpha_warning] \<and>
   snd (snd (BaseNrt_fit stub_fitters (example_state\<lparr>mask := None\<rparr>) [[Fin 1]] example_cube
               ''ROC'' None (Map.empty(''alpha'' \<mapsto> default_alpha))))
     = []"
proof -
  have a: "(Map.empty :: kwargs) ''alpha'' = None" by simp
  have n: "no_screening None \<or> screening_ignores_alpha stub_fitters"
    by (simp add: no_screening_def)
  have n': "no_screening None" by (simp add: no_screening_def)
  note w = ROC_without_alpha_uses_default
    [where kw = Map.empty and so = None and F = stub_fitters
       and st = "example_state\<lparr>mask := None\<rparr>" and X = "[[Fin 1]]" and da = example_cube,
     OF a n]
  have r: "fst (BaseNrt_fit stub_fitters (example_state\<lparr>mask := None\<rparr>) [[Fin 1]] example_cube
      ''ROC'' None Map.empty) = Inr ([[Fin 0, Fin 0]], [[Fin 0, Fin 0]])"
    by (simp add: stub_fit_ROC_no_mask)
  show ?thesis
    using w r by (intro conjI a n') blast+
qed

text \<open>
  C9. At an infinite residual, which is not below the tuning constant, the bisquare weight
  is NaN, not 0: the factor of the comparison is 0 and the other factor is infinite.
\<close>

theorem bisquare_infinite_residual_is_nan:
  "fl_le bisquare_default_c (fl_abs PInf) \<and>
   bisquare [PInf] bisquare_default_c = [NaN] \<and>
   bisquare [NInf] bisquare_default_c = [NaN]"
  by (simp add: bisquare_def bisquare_default_c_def bisquare_weight_def fl_of_bool_def
      fl_square_def fl_sub_def signed_inf_def)

text \<open>
  C10. For the two methods that test stability, \<^verbatim>\<open>_fit\<close> reshapes to the full grid a
  stability vector that has one entry per monitored pixel. With a mask supplied, a cube of
  at least one time step and a fitting library that keeps to the shape of its input, the
  call raises as soon as one pixel of the mask is not 1; and the reshape of a vector with
  one entry per monitored pixel passes exactly when every pixel of the mask is 1.
\<close>

theorem stable_fit_requires_full_mask:
  assumes "method = ''ROC'' \<or> method = ''CCDC-stable''"
    and "mask st = Some m" "length m = fst (da_shape da) * snd (da_shape da)"
    and "cube_ok da" "fitters_keep_shape F"
  shows "((\<exists>i<length m. m ! i \<noteq> 1) \<longrightarrow>
            (\<exists>e. fst (BaseNrt_fit F st X da method so kw) = Inl e)) \<and>
         (\<forall>s. length s = count_true (map (\<lambda>w. w = 1) m) \<longrightarrow>
            ((\<exists>m'. mark_unstable s (da_shape da) m = Inr m') \<longleftrightarrow> (\<forall>i<length m. m ! i = 1)))"
proof (intro conjI impI allI)
  assume "\<exists>i<length m. m ! i \<noteq> 1"
  then show "\<exists>e. fst (BaseNrt_fit F st X da method so kw) = Inl e"
    by (rule fit_stable_fails_on_partial_mask [OF assms])
next
  fix s :: "bool list"
  assume "length s = count_true (map (\<lambda>w. w = 1) m)"
  then show "(\<exists>m'. mark_unstable s (da_shape da) m = Inr m') \<longleftrightarrow> (\<forall>i<length m. m ! i = 1)"
    using count_monitored_full [of m] assms(3) by (auto simp: mark_unstable_def)
qed

theorem stable_fit_requires_full_mask_witness:
  "(''ROC'' = ''ROC'' \<or> ''ROC'' = ''CCDC-stable'') \<and>
   mask example_state = Some [1, 3] \<and>
   length [1, 3 :: 8 word] = fst (da_shape example_cube) * snd (da_shape example_cube) \<and>
   cube_ok example_cube \<and> fitters_keep_shape stub_fitters \<and>
   (\<exists>i<length [1, 3 :: 8 word]. [1, 3 :: 8 word] ! i \<noteq> 1) \<and>
   (\<exists>e. fst (BaseNrt_fit stub_fitters example_state [[Fin 1]] example_cube ''ROC'' None
            Map.empty) = Inl e) \<and>
   fst (BaseNrt_fit stub_fitters example_state [[Fin 1]] example_cube ''ROC'' None Map.empty)
     = Inl (ValueError ''cannot reshape array'')"
proof -
  have h1: "''ROC'' = ''ROC'' \<or> ''ROC'' = ''CCDC-stable''" by simp
  have h2: "mask example_state = Some [1, 3]" by (simp add: example_state_def)
  have h3: "length [1, 3 :: 8 word]
      = fst (da_shape example_cube) * snd (da_shape example_cube)"
    by (simp add: example_cube_def)
  have h6: "\<exists>i<length [1, 3 :: 8 word]. [1, 3 :: 8 word] ! i \<noteq> 1"
    by (rule exI [of _ 1]) simp
  note w = stable_fit_requires_full_mask
    [OF h1 h2 h3 example_cube_ok stub_fitters_keep_shape, of "[[Fin 1]]" None Map.empty]
  have e: "\<exists>e. fst (BaseNrt_fit stub_fitters example_state [[Fin 1]] example_cube ''ROC'' None
            Map.empty) = Inl e"
    using w h6 by blast
  show ?thesis
    by (intro conjI h1 h2 h3 example_cube_ok stub_fitters_keep_shape h6 e
        stub_fit_ROC_partial_mask)
qed

end
